theory Spec2Isabelle
  imports Complex_Main "HOL-Library.Char_ord" "HOL-Library.List_Lexorder"
begin

section \<open>Values of the program\<close>

text \<open>
  The client is written in JavaScript and works on the value that \<^verbatim>\<open>response.json()\<close>
  returns: an untyped JSON tree. The embedding keeps that shape. \<open>JUndefined\<close> is the
  value of a missing property; it never occurs inside a parsed payload but is produced by
  property access.

  Conventions of the embedding:
  \<^item> numbers are exact rationals (every finite double is one); \<^verbatim>\<open>NaN\<close>, which JSON cannot
    carry, appears only as the result \<open>None\<close> of a failed numeric coercion;
  \<^item> strings are lists of 8-bit characters, ordered by character code as JavaScript orders
    UTF-16 code units;
  \<^item> an object is the list of its own properties, keys distinct; its prototype is
    \<^verbatim>\<open>Object.prototype\<close>, an array's is \<^verbatim>\<open>Array.prototype\<close>, as \<^verbatim>\<open>JSON.parse\<close> builds them;
  \<^item> equality of values is HOL equality, which is \<^verbatim>\<open>===\<close> on primitive values; arrays and
    objects, which JavaScript compares by identity, are compared by structure, and the
    statements that depend on the comparison are about primitive values.
\<close>

datatype json =
    JUndefined
  | JNull
  | JBool bool
  | JNum rat
  | JStr string
  | JArr "json list"
  | JObj "(string \<times> json) list"

datatype error = TypeError

text \<open>Sequencing of steps that may throw: the first exception ends the computation.\<close>

definition bindE :: "error + 'a \<Rightarrow> ('a \<Rightarrow> error + 'b) \<Rightarrow> error + 'b" where
  "bindE m f = (case m of Inl e \<Rightarrow> Inl e | Inr v \<Rightarrow> f v)"

fun sequenceE :: "(error + 'a) list \<Rightarrow> error + 'a list" where
  "sequenceE [] = Inr []"
| "sequenceE (m # ms) = bindE m (\<lambda>y. bindE (sequenceE ms) (\<lambda>ys. Inr (y # ys)))"

definition mapE :: "('a \<Rightarrow> error + 'b) \<Rightarrow> 'a list \<Rightarrow> error + 'b list" where
  "mapE f xs = sequenceE (map f xs)"

text \<open>Truthiness, as tested by \<^verbatim>\<open>!x\<close>, \<^verbatim>\<open>x || y\<close>, \<^verbatim>\<open>x && y\<close> and \<^verbatim>\<open>filter(Boolean)\<close>.\<close>

fun truthy :: "json \<Rightarrow> bool" where
  "truthy JUndefined = False"
| "truthy JNull = False"
| "truthy (JBool b) = b"
| "truthy (JNum n) = (n \<noteq> 0)"
| "truthy (JStr s) = (s \<noteq> [])"
| "truthy (JArr xs) = True"
| "truthy (JObj fs) = True"

fun nullish :: "json \<Rightarrow> bool" where
  "nullish JUndefined = True"
| "nullish JNull = True"
| "nullish v = False"

text \<open>\<^verbatim>\<open>a || b\<close> on values.\<close>

definition orElse :: "json \<Rightarrow> json \<Rightarrow> json" where
  "orElse a b = (if truthy a then a else b)"

text \<open>
  Reading a property of a value that is neither \<^verbatim>\<open>null\<close> nor \<^verbatim>\<open>undefined\<close>. The program
  reads only data field names (\<^verbatim>\<open>data\<close>, \<^verbatim>\<open>caption\<close>, \<^verbatim>\<open>sender\<close>, ...), none of which is
  a built-in property of arrays, strings, numbers or booleans, so those yield
  \<^verbatim>\<open>undefined\<close>.
\<close>

fun readProp :: "json \<Rightarrow> string \<Rightarrow> json" where
  "readProp (JObj fs) k = (case map_of fs k of Some v \<Rightarrow> v | None \<Rightarrow> JUndefined)"
| "readProp v k = JUndefined"

text \<open>\<^verbatim>\<open>v.k\<close>: throws a TypeError on \<^verbatim>\<open>null\<close> and \<^verbatim>\<open>undefined\<close>.\<close>

definition getProp :: "json \<Rightarrow> string \<Rightarrow> error + json" where
  "getProp v k = (if nullish v then Inl TypeError else Inr (readProp v k))"

text \<open>\<^verbatim>\<open>v?.[k]\<close>: \<^verbatim>\<open>undefined\<close> on \<^verbatim>\<open>null\<close> and \<^verbatim>\<open>undefined\<close>.\<close>

definition optProp :: "json \<Rightarrow> string \<Rightarrow> json" where
  "optProp v k = (if nullish v then JUndefined else readProp v k)"

text \<open>Array elements; \<^verbatim>\<open>xs[i]\<close> past the end is \<^verbatim>\<open>undefined\<close>.\<close>

fun elems :: "json \<Rightarrow> json list" where
  "elems (JArr xs) = xs"
| "elems v = []"

definition index :: "json list \<Rightarrow> nat \<Rightarrow> json" where
  "index xs i = (if i < length xs then xs ! i else JUndefined)"

section \<open>Helper functions\<close>

text \<open>\<^verbatim>\<open>const isValidArray = (arr) => Array.isArray(arr) && arr.length > 0;\<close>\<close>

fun isValidArray :: "json \<Rightarrow> bool" where
  "isValidArray (JArr xs) = (length xs > 0)"
| "isValidArray v = False"

text \<open>\<^verbatim>\<open>path.split('.')\<close>\<close>

fun split :: "char \<Rightarrow> string \<Rightarrow> string list" where
  "split c [] = [[]]"
| "split c (x # xs) =
     (if x = c then [] # split c xs
      else (case split c xs of [] \<Rightarrow> [[x]] | p # ps \<Rightarrow> (x # p) # ps))"

text \<open>
  \<^verbatim>\<open>
  const safeGet = (obj, path, defaultValue = '') => {
    try {
      return path.split('.').reduce((acc, part) => acc?.[part], obj) ?? defaultValue;
    } catch {
      return defaultValue;
    }
  };
  \<close>
  Optional access never throws on data, so the \<^verbatim>\<open>catch\<close> branch is not reached.
  \<open>safeGet0\<close> is the call with the third argument defaulted.
\<close>

definition safeGet :: "json \<Rightarrow> string \<Rightarrow> json \<Rightarrow> json" where
  "safeGet obj path defaultValue =
     (let v = foldl optProp obj (split CHR ''.'' path)
      in if nullish v then defaultValue else v)"

definition safeGet0 :: "json \<Rightarrow> string \<Rightarrow> json" where
  "safeGet0 obj path = safeGet obj path (JStr [])"

text \<open>
  String coercion (\<^verbatim>\<open>String(x)\<close>, the keys of the default sort, and the first half of
  the numeric coercion of arrays and objects).
  \<^item> An object with no own property named \<^verbatim>\<open>toString\<close> prints as
    \<^verbatim>\<open>[object Object]\<close>, by \<^verbatim>\<open>Object.prototype.toString\<close>. An own property of that name
    is data, not a function, and hides the inherited method; \<^verbatim>\<open>valueOf\<close> then returns the
    object itself or is hidden too, and the coercion throws a TypeError.
  \<^item> An array prints its elements joined by commas, \<^verbatim>\<open>null\<close> and \<^verbatim>\<open>undefined\<close> elements
    as the empty string; it throws when an element does.
  \<^item> A number prints in decimal, with at most 20 digits after the point. That is what
    JavaScript prints for integers of magnitude below \<open>2^53\<close>. JavaScript prints other
    doubles with the shortest digits that read back as the same double, and in exponent
    form from \<open>10^21\<close> up and below \<open>10^-6\<close>, which this expansion does not reproduce; the
    statements that depend on the printed form of a number are about integers below
    \<open>2^53\<close>.
\<close>

definition digitChar :: "nat \<Rightarrow> char" where
  "digitChar n = ''0123456789'' ! (n mod 10)"

fun natToString :: "nat \<Rightarrow> string" where
  "natToString n =
     (if n < 10 then [digitChar n] else natToString (n div 10) @ [digitChar (n mod 10)])"

fun fracDigits :: "nat \<Rightarrow> rat \<Rightarrow> string" where
  "fracDigits 0 r = []"
| "fracDigits (Suc k) r =
     (if r = 0 then []
      else digitChar (nat \<lfloor>r * 10\<rfloor>) # fracDigits k (r * 10 - of_int \<lfloor>r * 10\<rfloor>))"

definition numToString :: "rat \<Rightarrow> string" where
  "numToString r =
     (let a = \<bar>r\<bar>; whole = natToString (nat \<lfloor>a\<rfloor>);
          digits = (if frac a = 0 then [] else CHR ''.'' # fracDigits 20 (frac a))
      in (if r < 0 then ''-'' else []) @ whole @ digits)"

fun join :: "string \<Rightarrow> string list \<Rightarrow> string" where
  "join sep [] = []"
| "join sep [s] = s"
| "join sep (s # t # ss) = s @ sep @ join sep (t # ss)"

fun toStr :: "json \<Rightarrow> error + string" where
  "toStr JUndefined = Inr ''undefined''"
| "toStr JNull = Inr ''null''"
| "toStr (JBool b) = Inr (if b then ''true'' else ''false'')"
| "toStr (JNum n) = Inr (numToString n)"
| "toStr (JStr s) = Inr s"
| "toStr (JArr xs) =
     bindE (sequenceE (map (\<lambda>x. if nullish x then Inr [] else toStr x) xs))
       (\<lambda>parts. Inr (join '','' parts))"
| "toStr (JObj fs) =
     (if map_of fs ''toString'' = None then Inr ''[object Object]'' else Inl TypeError)"

text \<open>
  Numeric coercion, as applied by the subtraction in the sort comparator; \<open>None\<close> is
  \<^verbatim>\<open>NaN\<close>. An array or an object is first coerced to a string (which may throw), and the
  string is then read as a number. The reading of a string as a number is not modelled:
  every string is taken as \<^verbatim>\<open>NaN\<close> (exact for \<^verbatim>\<open>[object Object]\<close>, not for a numeric
  string), and no theorem below relies on how non-numbers are ordered.
\<close>

definition stringToNumber :: "string \<Rightarrow> rat option" where
  "stringToNumber s = None"

fun toNumber :: "json \<Rightarrow> error + rat option" where
  "toNumber (JNum n) = Inr (Some n)"
| "toNumber JNull = Inr (Some 0)"
| "toNumber JUndefined = Inr None"
| "toNumber (JBool b) = Inr (Some (if b then 1 else 0))"
| "toNumber (JStr s) = Inr (stringToNumber s)"
| "toNumber v = bindE (toStr v) (\<lambda>s. Inr (stringToNumber s))"

text \<open>\<^verbatim>\<open>a - b\<close>: the left operand is coerced first.\<close>

definition subtract :: "json \<Rightarrow> json \<Rightarrow> error + rat option" where
  "subtract a b =
     bindE (toNumber a) (\<lambda>x. bindE (toNumber b) (\<lambda>y.
       Inr (case x of None \<Rightarrow> None
            | Some u \<Rightarrow> (case y of None \<Rightarrow> None | Some v \<Rightarrow> Some (u - v)))))"

text \<open>
  \<^verbatim>\<open>Array.prototype.sort(compareFn)\<close>. The language fixes the result for a consistent
  comparator: the stable ordering in which \<open>a\<close> precedes \<open>b\<close> whenever
  \<open>compareFn(a, b) < 0\<close>; a result that is not positive (zero or \<^verbatim>\<open>NaN\<close>) keeps the two
  in place. It is computed here by stable insertion. An exception thrown by the comparator
  ends the sort; with two elements or more every element takes part in a comparison, and
  with fewer the comparator is not called.
\<close>

fun positive :: "rat option \<Rightarrow> bool" where
  "positive None = False"
| "positive (Some v) = (v > 0)"

fun insertBy :: "('a \<Rightarrow> 'a \<Rightarrow> error + rat option) \<Rightarrow> 'a \<Rightarrow> 'a list \<Rightarrow> error + 'a list" where
  "insertBy cmp x [] = Inr [x]"
| "insertBy cmp x (y # ys) =
     (case cmp x y of
        Inl e \<Rightarrow> Inl e
      | Inr c \<Rightarrow>
          if positive c
          then (case insertBy cmp x ys of Inl e \<Rightarrow> Inl e | Inr rest \<Rightarrow> Inr (y # rest))
          else Inr (x # y # ys))"

fun sortBy :: "('a \<Rightarrow> 'a \<Rightarrow> error + rat option) \<Rightarrow> 'a list \<Rightarrow> error + 'a list" where
  "sortBy cmp [] = Inr []"
| "sortBy cmp (x # xs) = bindE (sortBy cmp xs) (insertBy cmp x)"

text \<open>
  \<^verbatim>\<open>
  const sortBarData = (labels, data) => {
    if (!isValidArray(labels) || !isValidArray(data) || labels.length !== data.length) {
      return { sortedLabels: labels || [], sortedData: data || [] };
    }
    const pairs = labels.map((label, i) => [label, data[i]]);
    pairs.sort((a, b) => b[1] - a[1]);
    return {
      sortedLabels: pairs.map(pair => pair[0]),
      sortedData: pairs.map(pair => pair[1])
    };
  };
  \<close>
  The function returns (\<open>Inr\<close>) or passes on the exception of the comparator (\<open>Inl\<close>).
\<close>

record bar_data =
  sortedLabels :: json
  sortedData :: json

definition sortBarData :: "json \<Rightarrow> json \<Rightarrow> error + bar_data" where
  "sortBarData labels data =
     (if \<not> isValidArray labels \<or> \<not> isValidArray data
         \<or> length (elems labels) \<noteq> length (elems data)
      then Inr \<lparr>sortedLabels = orElse labels (JArr []), sortedData = orElse data (JArr [])\<rparr>
      else
        let pairs = map (\<lambda>i. (elems labels ! i, index (elems data) i)) [0..<length (elems labels)]
        in bindE (sortBy (\<lambda>a b. subtract (snd b) (snd a)) pairs) (\<lambda>sorted.
             Inr \<lparr>sortedLabels = JArr (map fst sorted), sortedData = JArr (map snd sorted)\<rparr>))"

text \<open>
  \<^verbatim>\<open>Array.prototype.sort()\<close> without a comparator: \<^verbatim>\<open>undefined\<close> elements go last, the
  others are ordered by their string forms, compared code unit by code unit; the sort is
  stable. With two elements or more to order, each is coerced to a string, and the sort
  throws when a coercion does; with fewer, nothing is coerced.
\<close>

definition defaultSort :: "json list \<Rightarrow> error + json list" where
  "defaultSort xs =
     (let defined = filter (\<lambda>x. x \<noteq> JUndefined) xs;
          rest = filter (\<lambda>x. x = JUndefined) xs
      in if length defined < 2 then Inr (defined @ rest)
         else bindE (mapE toStr defined) (\<lambda>keys.
                Inr (map fst (sort_key snd (zip defined keys)) @ rest)))"

text \<open>
  \<^verbatim>\<open>[...new Set(xs)]\<close>: the elements in order of first insertion, each once. Membership
  is HOL equality: the comparison of \<^verbatim>\<open>Set\<close> on primitive values.
\<close>

definition setAdd :: "'a list \<Rightarrow> 'a \<Rightarrow> 'a list" where
  "setAdd s x = (if x \<in> set s then s else s @ [x])"

definition newSet :: "'a list \<Rightarrow> 'a list" where
  "newSet xs = foldl setAdd [] xs"

text \<open>
  \<^verbatim>\<open>
  const generateDistinctColors = (count) => {
    const hueStep = 360 / count;
    return Array.from({ length: count }, (_, i) => {
      const hue = i * hueStep;
      return `hsla(${hue}, 70%, 60%, 0.6)`;
    });
  };
  \<close>
  A colour is either one of the literal CSS strings of the program or the template string
  above, kept as the hue it is formatted from.
\<close>

datatype colour = Css string | Hsla rat

definition generateDistinctColors :: "nat \<Rightarrow> colour list" where
  "generateDistinctColors count =
     (let hueStep = 360 / of_nat count
      in map (\<lambda>i. let hue = of_nat i * hueStep in Hsla hue) [0..<count])"

text \<open>One entry of a chart's \<^verbatim>\<open>datasets\<close>; a property the program leaves out is \<open>None\<close>.\<close>

datatype dataset =
  Dataset (ds_label: json) (ds_data: json) (ds_borderColor: "colour option")
    (ds_backgroundColor: "colour option") (ds_fill: "bool option")

text \<open>
  \<^verbatim>\<open>
  const groupBySender = (data, dateField='date', valueField='message_count') => {
    if (!isValidArray(data)) return { dates: [], datasets: [] };
    try {
      const senders = [...new Set(data.map(d => safeGet(d, 'sender')))].filter(Boolean);
      const dates = [...new Set(data.map(d => safeGet(d, dateField)))].filter(Boolean).sort();
      const colors = generateDistinctColors(senders.length);
      const datasets = senders.map((sender, index) => {
        const senderData = data.filter(d => safeGet(d, 'sender') === sender);
        const values = dates.map(dt => {
          const entry = senderData.find(x => safeGet(x, dateField) === dt);
          return safeGet(entry, valueField, 0);
        });
        const color = colors[index];
        return { label: sender, data: values, borderColor: color,
                 backgroundColor: color, fill: true };
      });
      return { dates, datasets };
    } catch (error) {
      console.error('Error in groupBySender:', error);
      return { dates: [], datasets: [] };
    }
  };
  \<close>
  \<open>groupBySenderTry\<close> is the body of the \<^verbatim>\<open>try\<close>; the one statement in it that can throw
  is the sort of the dates. The cells are compared by HOL equality: \<^verbatim>\<open>===\<close> on primitive
  values.
\<close>

record grouped =
  dates :: "json list"
  datasets :: "dataset list"

definition colorAt :: "colour list \<Rightarrow> nat \<Rightarrow> colour option" where
  "colorAt colors i = (if i < length colors then Some (colors ! i) else None)"

definition senderSeries ::
  "json list \<Rightarrow> string \<Rightarrow> string \<Rightarrow> json list \<Rightarrow> colour list \<Rightarrow> json \<Rightarrow> nat \<Rightarrow> dataset" where
  "senderSeries rows dateField valueField dateList colors sender i =
     (let senderData = filter (\<lambda>d. safeGet0 d ''sender'' = sender) rows;
          values = map (\<lambda>dt.
              let entry = find (\<lambda>x. safeGet0 x dateField = dt) senderData
              in safeGet (case entry of None \<Rightarrow> JUndefined | Some e \<Rightarrow> e) valueField (JNum 0))
            dateList;
          color = colorAt colors i
      in Dataset sender (JArr values) color color (Some True))"

definition groupBySenderTry :: "json \<Rightarrow> string \<Rightarrow> string \<Rightarrow> error + grouped" where
  "groupBySenderTry data dateField valueField =
     (let rows = elems data;
          senders = filter truthy (newSet (map (\<lambda>d. safeGet0 d ''sender'') rows))
      in bindE (defaultSort (filter truthy (newSet (map (\<lambda>d. safeGet0 d dateField) rows))))
           (\<lambda>dateList.
              let colors = generateDistinctColors (length senders);
                  series = map (\<lambda>i. senderSeries rows dateField valueField dateList colors
                                        (senders ! i) i)
                             [0..<length senders]
              in Inr \<lparr>dates = dateList, datasets = series\<rparr>))"

definition groupBySender :: "json \<Rightarrow> string \<Rightarrow> string \<Rightarrow> grouped" where
  "groupBySender data dateField valueField =
     (if \<not> isValidArray data then \<lparr>dates = [], datasets = []\<rparr>
      else
        (case groupBySenderTry data dateField valueField of
           Inl e \<Rightarrow> \<lparr>dates = [], datasets = []\<rparr>
         | Inr grouped \<Rightarrow> grouped))"

section \<open>The dataset assembler\<close>

text \<open>
  The items of the assembled sequence: a chart (\<^verbatim>\<open>{title, type, data: {labels, datasets},
  commentary}\<close>), the grid of day summaries, and the text card.
\<close>

datatype chart_type = Bar | Line

datatype day_summary =
  DaySummary (sm_title: string) (sm_summary: string) (sm_chat_logs: json)

datatype item =
    Chart (ch_title: string) (ch_type: chart_type) (ch_labels: json)
      (ch_datasets: "dataset list") (ch_commentary: json)
  | SummaryGrid (summaries: "day_summary list")
  | TextSummaryCard (tc_title: string) (tc_summary: string)

text \<open>
  The ranking charts are eight copies of one block, differing in the metric key, the two
  row fields, the titles and the colour:
  \<^verbatim>\<open>
    if (isValidArray(analysisData.KEY.data)) {
      const labels = analysisData.KEY.data.map(d => safeGet(d, LABELFIELD));
      const values = analysisData.KEY.data.map(d => safeGet(d, VALUEFIELD, 0));
      const { sortedLabels, sortedData } = sortBarData(labels, values);
      chartDataSets.push({
        title: TITLE, type: "Bar",
        data: { labels: sortedLabels,
                datasets: [{ label: LABEL, data: sortedData, backgroundColor: COLOUR }] },
        commentary: analysisData.KEY.caption
      });
    }
  \<close>
  A block returns the items it pushes, or the exception that \<^verbatim>\<open>analysisData.KEY.data\<close>
  throws when \<^verbatim>\<open>analysisData.KEY\<close> is \<^verbatim>\<open>undefined\<close> or \<^verbatim>\<open>null\<close>, or the exception of
  \<open>sortBarData\<close>.
\<close>

definition barBlock ::
  "string \<Rightarrow> string \<Rightarrow> string \<Rightarrow> string \<Rightarrow> string \<Rightarrow> string \<Rightarrow> json \<Rightarrow> error + item list" where
  "barBlock key labelField valueField title label colour analysisData =
     bindE (getProp analysisData key) (\<lambda>metric.
     bindE (getProp metric ''data'') (\<lambda>rows.
       if isValidArray rows then
         let labels = JArr (map (\<lambda>d. safeGet0 d labelField) (elems rows));
             values = JArr (map (\<lambda>d. safeGet d valueField (JNum 0)) (elems rows))
         in bindE (sortBarData labels values) (\<lambda>sorted.
              Inr [Chart title Bar (sortedLabels sorted)
                     [Dataset (JStr label) (sortedData sorted) None (Some (Css colour)) None]
                     (readProp metric ''caption'')])
       else Inr []))"

text \<open>
  The two monthly line charts keep the row order:
  \<^verbatim>\<open>
    if (isValidArray(analysisData.KEY.data)) {
      chartDataSets.push({
        title: TITLE, type: "Line",
        data: { labels: analysisData.KEY.data.map(d => safeGet(d, LABELFIELD)),
                datasets: [{ label: LABEL,
                             data: analysisData.KEY.data.map(d => safeGet(d, VALUEFIELD, 0)),
                             borderColor: COLOUR, fill: false }] },
        commentary: analysisData.KEY.caption
      });
    }
  \<close>
\<close>

definition lineBlock ::
  "string \<Rightarrow> string \<Rightarrow> string \<Rightarrow> string \<Rightarrow> string \<Rightarrow> string \<Rightarrow> json \<Rightarrow> error + item list" where
  "lineBlock key labelField valueField title label colour analysisData =
     bindE (getProp analysisData key) (\<lambda>metric.
     bindE (getProp metric ''data'') (\<lambda>rows.
       if isValidArray rows then
         Inr [Chart title Line (JArr (map (\<lambda>d. safeGet0 d labelField) (elems rows)))
                [Dataset (JStr label)
                   (JArr (map (\<lambda>d. safeGet d valueField (JNum 0)) (elems rows)))
                   (Some (Css colour)) None (Some False)]
                (readProp metric ''caption'')]
       else Inr []))"

text \<open>
  \<^verbatim>\<open>
    if (isValidArray(analysisData.quarterly_contribution.data)) {
      const quarterData = groupBySender(analysisData.quarterly_contribution.data,
                                        'date', 'message_count');
      if (quarterData.dates.length > 0 && quarterData.datasets.length > 0) {
        chartDataSets.push({
          title: "Quarterly Message Contribution by Sender", type: "Line",
          data: { labels: quarterData.dates, datasets: quarterData.datasets },
          commentary: analysisData.quarterly_contribution.caption
        });
      }
    }
  \<close>
\<close>

definition quarterlyBlock :: "json \<Rightarrow> error + item list" where
  "quarterlyBlock analysisData =
     bindE (getProp analysisData ''quarterly_contribution'') (\<lambda>metric.
     bindE (getProp metric ''data'') (\<lambda>rows.
       if isValidArray rows then
         let quarterData = groupBySender rows ''date'' ''message_count''
         in if length (dates quarterData) > 0 \<and> length (datasets quarterData) > 0
            then Inr [Chart ''Quarterly Message Contribution by Sender'' Line
                        (JArr (dates quarterData)) (datasets quarterData)
                        (readProp metric ''caption'')]
            else Inr []
       else Inr []))"

text \<open>
  \<^verbatim>\<open>
    if (analysisData.top_ten_days?.day_summaries &&
      Array.isArray(analysisData.top_ten_days.day_summaries)) {
      const summaries = analysisData.top_ten_days.day_summaries.map(dayData => ({
        title: String(dayData.date || ''),
        summary: String(dayData.content.summary || ''),
        chat_logs: dayData.chat_logs || []
      })).filter(summary => summary.title && summary.summary);
      if (summaries.length > 0) {
        chartDataSets.push({ type: "SummaryGrid", summaries: summaries });
      }
    }
  \<close>
  The callback throws on an entry that is \<^verbatim>\<open>null\<close>, on one whose \<^verbatim>\<open>content\<close> is
  missing or \<^verbatim>\<open>null\<close>, and when \<^verbatim>\<open>String\<close> does.
\<close>

definition daySummary :: "json \<Rightarrow> error + day_summary" where
  "daySummary dayData =
     bindE (getProp dayData ''date'') (\<lambda>date.
     bindE (toStr (orElse date (JStr []))) (\<lambda>title.
     bindE (getProp dayData ''content'') (\<lambda>content.
     bindE (getProp content ''summary'') (\<lambda>text.
     bindE (toStr (orElse text (JStr []))) (\<lambda>summary.
       Inr (DaySummary title summary
              (orElse (readProp dayData ''chat_logs'') (JArr []))))))))"

fun isArray :: "json \<Rightarrow> bool" where
  "isArray (JArr xs) = True"
| "isArray v = False"

definition summariesBlock :: "json \<Rightarrow> error + item list" where
  "summariesBlock analysisData =
     bindE (getProp analysisData ''top_ten_days'') (\<lambda>metric.
       let day_summaries = optProp metric ''day_summaries''
       in if truthy day_summaries \<and> isArray day_summaries then
            bindE (mapE daySummary (elems day_summaries)) (\<lambda>mapped.
              let kept = filter (\<lambda>s. sm_title s \<noteq> [] \<and> sm_summary s \<noteq> []) mapped
              in if length kept > 0 then Inr [SummaryGrid kept] else Inr [])
          else Inr [])"

definition closingCard :: item where
  "closingCard = TextSummaryCard ''That's all folks!''
     (''We wish you and your groupchat the happiest of New Years! We like to have fun ''
      @ ''around here but all jokes aside, everyone in the groupchat is special, whether ''
      @ ''it's the guy who always posts videos you're not going to watch, or the old ''
      @ ''college bud with three kids that hasn't posted since the last one was born ''
      @ ''(cute pics though.) Shoot 'em a message and let em know you care. Share this ''
      @ ''Wrapped. Help us keep the lights on <3'')"

definition closingBlock :: "json \<Rightarrow> error + item list" where
  "closingBlock analysisData = Inr [closingCard]"

text \<open>
  The body of the \<^verbatim>\<open>try\<close>, in source order. The push of the closing card is its last
  statement.
\<close>

definition blocks :: "(json \<Rightarrow> error + item list) list" where
  "blocks =
     [ barBlock ''day_of_week'' ''day_of_week'' ''avg_messages''
         ''Average Messages by Day of Week'' ''Avg Messages by Day of Week''
         ''rgba(54, 162, 235, 0.6)'',
       lineBlock ''monthly_messages'' ''date'' ''message_count''
         ''Monthly Message Count'' ''Messages per Month'' ''rgba(255, 99, 132, 1)'',
       lineBlock ''avg_messages_sent'' ''month'' ''avg_messages_sent''
         ''Average Messages Sent per Month'' ''Avg Messages per Month''
         ''rgba(75, 192, 192, 1)'',
       quarterlyBlock,
       barBlock ''yearly_comparison'' ''sender'' ''percent_change''
         ''Year-Over-Year Message Change'' ''YoY % Change'' ''rgba(153, 102, 255, 0.6)'',
       barBlock ''top_ten_days'' ''day'' ''chats''
         ''Top 10 Most Active Days'' ''Number of Messages'' ''rgba(255, 206, 86, 0.6)'',
       summariesBlock,
       barBlock ''manic'' ''sender'' ''percent_manic''
         ''Most Manic Award'' ''% Messages (10pm-4am)'' ''rgba(54, 162, 235, 0.6)'',
       barBlock ''most_ignored'' ''sender'' ''average_time_to_respond''
         ''Most Ignored Member :('' ''Average Minutes Until Response''
         ''rgba(54, 162, 235, 0.6)'',
       barBlock ''novelist'' ''sender'' ''average_message_length''
         ''Groupchat Novelist Award'' ''Average Characters per Message''
         ''rgba(54, 162, 235, 0.6)'',
       barBlock ''swears'' ''sender'' ''swears_per_message''
         ''Swear Word Frequency'' ''Swears per Message'' ''rgba(255, 99, 132, 0.6)'',
       barBlock ''hangout'' ''sender'' ''hangouts_per_message''
         ''Hangout Discussion Frequency'' ''Hangout References per Message''
         ''rgba(75, 192, 192, 0.6)'',
       closingBlock ]"

text \<open>
  \<^verbatim>\<open>
  const buildChartDataSets = (analysisData) => {
    if (!analysisData) return [];
    const chartDataSets = [];
    try {
      ... the blocks ...
    } catch (error) {
      console.error('Error building chart datasets:', error);
    }
    return chartDataSets;
  };
  \<close>
  \<open>runBlocks\<close> threads the array \<^verbatim>\<open>chartDataSets\<close> through the blocks. An exception
  leaves the \<^verbatim>\<open>try\<close>: the array as it stands is kept, together with what was thrown.
\<close>

fun runBlocks ::
  "(json \<Rightarrow> error + item list) list \<Rightarrow> json \<Rightarrow> item list \<Rightarrow> item list \<times> error option" where
  "runBlocks [] analysisData chartDataSets = (chartDataSets, None)"
| "runBlocks (b # bs) analysisData chartDataSets =
     (case b analysisData of
        Inl e \<Rightarrow> (chartDataSets, Some e)
      | Inr pushed \<Rightarrow> runBlocks bs analysisData (chartDataSets @ pushed))"

definition buildChartDataSets :: "json \<Rightarrow> item list" where
  "buildChartDataSets analysisData =
     (if \<not> truthy analysisData then [] else fst (runBlocks blocks analysisData []))"

text \<open>
  What a call can touch besides its argument: the console it writes to in the \<^verbatim>\<open>catch\<close>
  branch, and the generator behind \<^verbatim>\<open>Math.random()\<close>, here the sequence of numbers it
  will return and how many have been drawn. The module has one function that draws from it:
  \<^verbatim>\<open>
  const getRandomColor = () => {
    const r = Math.floor(Math.random() * 255);
    const g = Math.floor(Math.random() * 255);
    const b = Math.floor(Math.random() * 255);
    return `rgba(${r}, ${g}, ${b}, 0.6)`;
  };
  \<close>
\<close>

record world =
  console :: "string list"
  randoms :: "nat \<Rightarrow> rat"
  drawn :: nat

definition mathRandom :: "world \<Rightarrow> rat \<times> world" where
  "mathRandom w = (randoms w (drawn w), w\<lparr>drawn := Suc (drawn w)\<rparr>)"

definition getRandomColor :: "world \<Rightarrow> string \<times> world" where
  "getRandomColor w =
     (let (x, w1) = mathRandom w; r = \<lfloor>x * 255\<rfloor>;
          (y, w2) = mathRandom w1; g = \<lfloor>y * 255\<rfloor>;
          (z, w3) = mathRandom w2; b = \<lfloor>z * 255\<rfloor>
      in (''rgba('' @ numToString (of_int r) @ '', '' @ numToString (of_int g) @ '', ''
            @ numToString (of_int b) @ '', 0.6)'', w3))"

text \<open>A call of the assembler in a world: its result and the world it leaves.\<close>

definition callBuildChartDataSets :: "json \<Rightarrow> world \<Rightarrow> item list \<times> world" where
  "callBuildChartDataSets analysisData w =
     (if \<not> truthy analysisData then ([], w)
      else
        (case runBlocks blocks analysisData [] of
           (chartDataSets, None) \<Rightarrow> (chartDataSets, w)
         | (chartDataSets, Some e) \<Rightarrow>
             (chartDataSets, w\<lparr>console := console w @ [''Error building chart datasets:'']\<rparr>)))"

section \<open>The application state and its handlers\<close>

text \<open>
  The state variables of the \<^verbatim>\<open>App\<close> component that the handlers below read or write
  (\<^verbatim>\<open>phase\<close> is only ever set to one of four strings; \<^verbatim>\<open>error\<close> is \<^verbatim>\<open>null\<close> or a
  message).
\<close>

datatype phase = Upload | Loading | Visualize | ErrorPhase

record app_state =
  phase :: phase
  analysisData :: json
  selectedYear :: json
  currentChartIndex :: int
  isScrolling :: bool
  errorMessage :: "string option"







text \<open>
  \<^verbatim>\<open>
  const handleYearChange = async (year) => {
    setSelectedYear(year);
    setPhase('loading');
    try {
      const response = await fetch(`${analysisApiUrl}/analyze`, { ... });
      if (!response.ok) throw new Error('Failed to fetch analysis data for year');
      const json = await response.json();
      setAnalysisData(json);
      setPhase('visualize');
      setCurrentChartIndex(0);
    } catch (error) {
      setError('Failed to fetch data for year');
      setPhase('error');
    }
  };
  \<close>
  The handler writes absolute values, so it is a function of the live state. The outcome of
  the request is an input of the model: the request is rejected (network
  error), or it answers with a status that is 2xx or not and a body that parses as JSON or
  not. \<open>yearChangeRequested\<close> is the part before the first \<^verbatim>\<open>await\<close>,
  \<open>yearChangeSettled\<close> the rest.
\<close>

datatype fetch_result = NetworkError | Response bool "json option"

definition yearChangeRequested :: "json \<Rightarrow> app_state \<Rightarrow> app_state" where
  "yearChangeRequested year s = s\<lparr>selectedYear := year, phase := Loading\<rparr>"

fun yearChangeSettled :: "fetch_result \<Rightarrow> app_state \<Rightarrow> app_state" where
  "yearChangeSettled (Response True (Some json)) s =
     s\<lparr>analysisData := json, phase := Visualize, currentChartIndex := 0\<rparr>"
| "yearChangeSettled r s =
     s\<lparr>errorMessage := Some ''Failed to fetch data for year'', phase := ErrorPhase\<rparr>"

definition handleYearChange :: "json \<Rightarrow> fetch_result \<Rightarrow> app_state \<Rightarrow> app_state" where
  "handleYearChange year r s = yearChangeSettled r (yearChangeRequested year s)"

text \<open>
  What the component renders, by phase. In the \<^verbatim>\<open>visualize\<close> phase it shows the item under
  the clamped cursor,
  \<^verbatim>\<open>Math.max(0, Math.min(currentChartIndex, chartDataSets.length - 1))\<close>,
  or a notice when the assembled sequence is empty.
\<close>

datatype screen =
    UploadScreen
  | LoadingScreen
  | NoDataScreen
  | ItemScreen nat item
  | ErrorScreen string

definition render :: "app_state \<Rightarrow> screen" where
  "render s =
     (case phase s of
        Upload \<Rightarrow> UploadScreen
      | Loading \<Rightarrow> LoadingScreen
      | Visualize \<Rightarrow>
          (let chartDataSets = buildChartDataSets (analysisData s)
           in if length chartDataSets = 0 then NoDataScreen
              else
                let safeCurrentIndex =
                      nat (max 0 (min (currentChartIndex s) (int (length chartDataSets) - 1)))
                in ItemScreen safeCurrentIndex (chartDataSets ! safeCurrentIndex))
      | ErrorPhase \<Rightarrow>
          ErrorScreen (case errorMessage s of
                         None \<Rightarrow> ''An error occurred.''
                       | Some m \<Rightarrow> if m = [] then ''An error occurred.'' else m))"

section \<open>Notions used in the statements\<close>

text \<open>
  On pairs whose second component is a number, the comparator \<^verbatim>\<open>(a, b) => b[1] - a[1]\<close>
  orders by the key \<open>descKey\<close>, the negated value.
\<close>

definition descKey :: "json \<times> json \<Rightarrow> rat" where
  "descKey p = (case snd p of JNum n \<Rightarrow> - n | _ \<Rightarrow> 0)"

fun numeric :: "json \<Rightarrow> bool" where
  "numeric (JNum n) = True"
| "numeric v = False"

text \<open>An argument of \<open>sortBarData\<close> that is a list, \<^verbatim>\<open>null\<close> or \<^verbatim>\<open>undefined\<close>.\<close>

fun listInput :: "json \<Rightarrow> bool" where
  "listInput (JArr xs) = True"
| "listInput JNull = True"
| "listInput JUndefined = True"
| "listInput v = False"

text \<open>
  A value none of whose objects has an own property named \<^verbatim>\<open>toString\<close>: its coercions to
  a string and to a number do not throw.
\<close>

fun plain :: "json \<Rightarrow> bool" where
  "plain (JArr xs) = list_all plain xs"
| "plain (JObj fs) = (map_of fs ''toString'' = None \<and> list_all plain (map snd fs))"
| "plain v = True"

text \<open>
  A primitive value, and one whose printed form the embedding has exactly: a primitive value
  that, when a number, is an integer of magnitude below \<open>2^53\<close>.
\<close>

fun primitive :: "json \<Rightarrow> bool" where
  "primitive (JArr xs) = False"
| "primitive (JObj fs) = False"
| "primitive v = True"

fun printedExactly :: "json \<Rightarrow> bool" where
  "printedExactly (JNum n) = (of_int \<lfloor>n\<rfloor> = n \<and> \<bar>n\<bar> < 2 ^ 53)"
| "printedExactly v = primitive v"

text \<open>
  Rows whose \<^verbatim>\<open>sender\<close> cells are primitive and whose \<^verbatim>\<open>date\<close> cells are primitive and
  printed exactly.
\<close>

definition primitiveCells :: "json \<Rightarrow> bool" where
  "primitiveCells data =
     list_all (\<lambda>row. primitive (safeGet0 row ''sender'') \<and> printedExactly (safeGet0 row ''date''))
       (elems data)"

text \<open>The metric keys the assembler reads, in the order it reads them.\<close>

definition metricKeys :: "string list" where
  "metricKeys = [''day_of_week'', ''monthly_messages'', ''avg_messages_sent'',
     ''quarterly_contribution'', ''yearly_comparison'', ''top_ten_days'', ''manic'',
     ''most_ignored'', ''novelist'', ''swears'', ''hangout'']"

text \<open>Every metric key is present with a record (a value other than \<^verbatim>\<open>null\<close>).\<close>

definition recordsPresent :: "json \<Rightarrow> bool" where
  "recordsPresent p = list_all (\<lambda>k. \<not> nullish (readProp p k)) metricKeys"

text \<open>
  Every entry of \<^verbatim>\<open>top_ten_days.day_summaries\<close>, when that is an array, is a value other
  than \<^verbatim>\<open>null\<close> with a \<^verbatim>\<open>content\<close> other than \<^verbatim>\<open>null\<close>.
\<close>

definition wellFormedSummaries :: "json \<Rightarrow> bool" where
  "wellFormedSummaries p =
     list_all (\<lambda>d. \<not> nullish d \<and> \<not> nullish (readProp d ''content''))
       (elems (optProp (readProp p ''top_ten_days'') ''day_summaries''))"

text \<open>No metric has a non-empty row array, and there is no non-empty array of day summaries.\<close>

definition noUsableData :: "json \<Rightarrow> bool" where
  "noUsableData p =
     (list_all (\<lambda>k. \<not> isValidArray (readProp (readProp p k) ''data'')) metricKeys
      \<and> \<not> isValidArray (optProp (readProp p ''top_ten_days'') ''day_summaries''))"

fun isChartOrGrid :: "item \<Rightarrow> bool" where
  "isChartOrGrid (TextSummaryCard t s) = False"
| "isChartOrGrid i = True"

text \<open>
  A block completes on payload \<open>p\<close>, pushes charts or grids only, and pushes nothing when
  \<open>quiet\<close> holds.
\<close>

definition blockOk :: "json \<Rightarrow> bool \<Rightarrow> (json \<Rightarrow> error + item list) \<Rightarrow> bool" where
  "blockOk p quiet b =
     (\<exists>its. b p = Inr its \<and> list_all isChartOrGrid its \<and> (quiet \<longrightarrow> its = []))"

text \<open>
  The request of a year change fails: it is rejected, answers outside 2xx, or its body does
  not parse.
\<close>

fun fetchFailed :: "fetch_result \<Rightarrow> bool" where
  "fetchFailed NetworkError = True"
| "fetchFailed (Response is2xx parsed) = (\<not> is2xx \<or> parsed = None)"

subsection \<open>Sample data\<close>

text \<open>
  The payload of the specification's scenario:
  \<^verbatim>\<open>{day_of_week: {data: [{day_of_week:"Mon", avg_messages:5},
                          {day_of_week:"Tue", avg_messages:10}]}}\<close>
\<close>

definition scenarioPayload :: json where
  "scenarioPayload =
     JObj [(''day_of_week'', JObj [(''data'', JArr
       [JObj [(''day_of_week'', JStr ''Mon''), (''avg_messages'', JNum 5)],
        JObj [(''day_of_week'', JStr ''Tue''), (''avg_messages'', JNum 10)]])])]"

text \<open>
  Two payloads that differ in the key \<^verbatim>\<open>day_of_week\<close> only: one has it with an empty row
  list, the other lacks it. Both carry one month of \<^verbatim>\<open>monthly_messages\<close> and an empty
  record for every other metric.
\<close>

definition otherRecords :: "(string \<times> json) list" where
  "otherRecords =
     (''monthly_messages'',
        JObj [(''data'', JArr [JObj [(''date'', JStr ''2024-01''), (''message_count'', JNum 42)]]),
              (''caption'', JStr ''A busy January'')])
     # map (\<lambda>k. (k, JObj [])) (drop 2 metricKeys)"

definition payloadEmptyDayOfWeek :: json where
  "payloadEmptyDayOfWeek = JObj ((''day_of_week'', JObj [(''data'', JArr [])]) # otherRecords)"

definition payloadWithoutDayOfWeek :: json where
  "payloadWithoutDayOfWeek = JObj otherRecords"

text \<open>A payload with an empty record for every metric.\<close>

definition emptyRecords :: json where
  "emptyRecords = JObj (map (\<lambda>k. (k, JObj [])) metricKeys)"

text \<open>
  Rows of \<^verbatim>\<open>quarterly_contribution\<close>: two senders, three quarters, the third row without
  a sender.
\<close>

definition quarterRows :: json where
  "quarterRows = JArr
     [JObj [(''sender'', JStr ''ann''), (''date'', JStr ''2024-04''), (''message_count'', JNum 3)],
      JObj [(''sender'', JStr ''bob''), (''date'', JStr ''2024-01''), (''message_count'', JNum 5)],
      JObj [(''date'', JStr ''2024-07''), (''message_count'', JNum 8)]]"

text \<open>Rows whose dates are the numbers 10 and 9, the second with an empty sender.\<close>

definition numberedRows :: json where
  "numberedRows = JArr
     [JObj [(''sender'', JStr ''ann''), (''date'', JNum 10), (''message_count'', JNum 1)],
      JObj [(''sender'', JStr []), (''date'', JNum 9), (''message_count'', JNum 2)]]"

text \<open>
  A state of the application showing the second of the two items assembled from
  \<open>payloadEmptyDayOfWeek\<close>, and the same state with the cursor on the first.
\<close>

definition viewingSecond :: app_state where
  "viewingSecond =
     \<lparr>phase = Visualize, analysisData = payloadEmptyDayOfWeek, selectedYear = JStr ''2024'',
      currentChartIndex = 1, isScrolling = False, errorMessage = None\<rparr>"





section \<open>Properties of the helpers\<close>

subsection \<open>Sorting of bar data\<close>

lemma pairs_zip:
  "length ls = length ds \<Longrightarrow> map (\<lambda>i. (ls ! i, index ds i)) [0..<length ls] = zip ls ds"
  by (rule nth_equalityI) (simp_all add: index_def)

lemma subtract_numeric:
  "numeric (snd a) \<Longrightarrow> numeric (snd b) \<Longrightarrow>
   \<exists>c. subtract (snd b) (snd a) = Inr c \<and> positive c = (\<not> descKey a \<le> descKey b)"
  by (cases "snd a"; cases "snd b") (auto simp: descKey_def subtract_def bindE_def)

lemma insertBy_insort:
  "numeric (snd x) \<Longrightarrow> \<forall>p \<in> set ys. numeric (snd p) \<Longrightarrow>
   insertBy (\<lambda>a b. subtract (snd b) (snd a)) x ys = Inr (insort_key descKey x ys)"
proof (induction ys)
  case Nil
  then show ?case by simp
next
  case (Cons y ys)
  obtain c where c: "subtract (snd y) (snd x) = Inr c"
      "positive c = (\<not> descKey x \<le> descKey y)"
    using subtract_numeric[of x y] Cons.prems by auto
  show ?case using Cons c by simp
qed

lemma sortBy_sort_key:
  "\<forall>p \<in> set xs. numeric (snd p) \<Longrightarrow>
   sortBy (\<lambda>a b. subtract (snd b) (snd a)) xs = Inr (sort_key descKey xs)"
proof (induction xs)
  case Nil
  then show ?case by simp
next
  case (Cons x xs)
  then have "sortBy (\<lambda>a b. subtract (snd b) (snd a)) xs = Inr (sort_key descKey xs)" by simp
  moreover have "\<forall>p \<in> set (sort_key descKey xs). numeric (snd p)" using Cons.prems by simp
  ultimately show ?case using Cons.prems
    by (simp add: bindE_def insertBy_insort)
qed

text \<open>
  Claim C3. For a label list and a list of numbers of the same positive length,
  \<open>sortBarData\<close> returns the labels and the numbers rearranged together so that the
  numbers are non-increasing (for all positions \<open>i < j\<close>), and entries with equal values keep
  the order they had in the input: for every value \<open>v\<close>, the (label, value) pairs with value
  \<open>v\<close> read the same in the output as in the input.
\<close>

theorem sortBarData_descending_stable:
  assumes len: "length ls = length vs" and pos: "0 < length ls"
  shows "\<exists>ls' vs'.
           sortBarData (JArr ls) (JArr (map JNum vs))
             = Inr \<lparr>sortedLabels = JArr ls', sortedData = JArr (map JNum vs')\<rparr>
         \<and> length ls' = length ls \<and> length vs' = length vs
         \<and> (\<forall>i j. i < j \<and> j < length vs' \<longrightarrow> vs' ! j \<le> vs' ! i)
         \<and> (\<forall>v. filter (\<lambda>p. snd p = v) (zip ls' vs') = filter (\<lambda>p. snd p = v) (zip ls vs))"
proof -
  let ?ps = "zip ls (map JNum vs)"
  let ?cmp = "\<lambda>a b::json \<times> json. subtract (snd b) (snd a)"
  let ?out = "sort_key descKey ?ps"
  let ?val = "\<lambda>p::json \<times> json. - descKey p"
  have num: "\<forall>p \<in> set ?ps. numeric (snd p)"
    by (auto dest!: set_zip_rightD)
  have num_out: "\<forall>p \<in> set ?out. numeric (snd p)" using num by simp
  have snd_val: "\<And>p. numeric (snd p) \<Longrightarrow> snd p = JNum (?val p)"
    by (case_tac "snd p") (simp_all add: descKey_def)
  have sb: "sortBy ?cmp ?ps = Inr ?out" using num by (rule sortBy_sort_key)
  have pz: "map (\<lambda>i. (ls ! i, index (map JNum vs) i)) [0..<length vs] = ?ps"
    using pairs_zip[of ls "map JNum vs"] len by simp
  have res: "sortBarData (JArr ls) (JArr (map JNum vs))
               = Inr \<lparr>sortedLabels = JArr (map fst ?out), sortedData = JArr (map snd ?out)\<rparr>"
    using len pos by (simp add: sortBarData_def pz sb bindE_def Let_def)
  have snd_out: "map snd ?out = map JNum (map ?val ?out)"
    using num_out snd_val by (simp add: comp_def)
  have zip_out: "zip (map fst ?out) (map ?val ?out) = map (\<lambda>p. (fst p, ?val p)) ?out"
    by (simp add: zip_map_map[where xs = "?out" and ys = "?out" and f = fst and g = "?val"]
        zip_same_conv_map)
  have zip_in: "zip ls vs = map (\<lambda>p. (fst p, ?val p)) ?ps"
    using len by (rule_tac nth_equalityI) (simp_all add: descKey_def)
  have desc: "\<forall>i j. i < j \<and> j < length (map ?val ?out)
                \<longrightarrow> map ?val ?out ! j \<le> map ?val ?out ! i"
  proof (intro allI impI)
    fix i j assume ij: "i < j \<and> j < length (map ?val ?out)"
    have "sorted (map descKey ?out)" by (rule sorted_sort_key)
    then have "descKey (?out ! i) \<le> descKey (?out ! j)"
      using ij by (simp add: sorted_iff_nth_mono)
    then show "map ?val ?out ! j \<le> map ?val ?out ! i" using ij by simp
  qed
  have stable: "\<forall>v. filter (\<lambda>p. snd p = v) (zip (map fst ?out) (map ?val ?out))
                    = filter (\<lambda>p. snd p = v) (zip ls vs)"
  proof
    fix v
    have "filter (\<lambda>p. snd p = v) (map (\<lambda>p. (fst p, ?val p)) ?out)
            = map (\<lambda>p. (fst p, ?val p)) (filter (\<lambda>p. descKey p = - v) ?out)"
      by (simp add: filter_map comp_def)
        (metis (no_types) neg_equal_iff_equal add.inverse_inverse)
    also have "\<dots> = map (\<lambda>p. (fst p, ?val p)) (filter (\<lambda>p. descKey p = - v) ?ps)"
      by (simp only: sort_key_stable)
    also have "\<dots> = filter (\<lambda>p. snd p = v) (map (\<lambda>p. (fst p, ?val p)) ?ps)"
      by (simp add: filter_map comp_def)
        (metis (no_types) neg_equal_iff_equal add.inverse_inverse)
    finally show "filter (\<lambda>p. snd p = v) (zip (map fst ?out) (map ?val ?out))
                    = filter (\<lambda>p. snd p = v) (zip ls vs)"
      by (simp only: zip_out zip_in)
  qed
  show ?thesis
    apply (rule exI[where x = "map fst ?out"])
    apply (rule exI[where x = "map ?val ?out"])
    using res snd_out desc stable len by simp
qed

text \<open>
  The theorem at three rows, two of them tied at 5: the row valued 10 comes first, and the
  tied rows \<open>a\<close> and \<open>c\<close> keep their order.
\<close>

theorem sortBarData_descending_stable_witness:
  "length [JStr ''a'', JStr ''b'', JStr ''c''] = length [5, 10, 5 :: rat]
   \<and> 0 < length [JStr ''a'', JStr ''b'', JStr ''c'']
   \<and> sortBarData (JArr [JStr ''a'', JStr ''b'', JStr ''c'']) (JArr (map JNum [5, 10, 5]))
       = Inr \<lparr>sortedLabels = JArr [JStr ''b'', JStr ''a'', JStr ''c''],
              sortedData = JArr [JNum 10, JNum 5, JNum 5]\<rparr>
   \<and> (\<exists>ls' vs'.
         sortBarData (JArr [JStr ''a'', JStr ''b'', JStr ''c'']) (JArr (map JNum [5, 10, 5]))
           = Inr \<lparr>sortedLabels = JArr ls', sortedData = JArr (map JNum vs')\<rparr>
       \<and> length ls' = length [JStr ''a'', JStr ''b'', JStr ''c'']
       \<and> length vs' = length [5, 10, 5 :: rat]
       \<and> (\<forall>i j. i < j \<and> j < length vs' \<longrightarrow> vs' ! j \<le> vs' ! i)
       \<and> (\<forall>v. filter (\<lambda>p. snd p = v) (zip ls' vs')
                = filter (\<lambda>p. snd p = v) (zip [JStr ''a'', JStr ''b'', JStr ''c''] [5, 10, 5])))"
proof -
  have h1: "length [JStr ''a'', JStr ''b'', JStr ''c''] = length [5, 10, 5 :: rat]" by simp
  have h2: "0 < length [JStr ''a'', JStr ''b'', JStr ''c'']" by simp
  have run: "sortBarData (JArr [JStr ''a'', JStr ''b'', JStr ''c'']) (JArr (map JNum [5, 10, 5]))
       = Inr \<lparr>sortedLabels = JArr [JStr ''b'', JStr ''a'', JStr ''c''],
              sortedData = JArr [JNum 10, JNum 5, JNum 5]\<rparr>"
    by code_simp
  show ?thesis
    by (intro conjI) (rule h1, rule h2, rule run, rule sortBarData_descending_stable[OF h1 h2])
qed

text \<open>
  Claim C9. When the label list and the value list (each a list, \<^verbatim>\<open>null\<close> or
  \<^verbatim>\<open>undefined\<close>) are not both non-empty arrays of equal length, \<open>sortBarData\<close> does not
  sort and does not throw: it returns the two inputs as they are, with \<^verbatim>\<open>null\<close> or
  \<^verbatim>\<open>undefined\<close> replaced by the empty list.
\<close>

theorem sortBarData_passthrough:
  assumes "listInput labels" and "listInput data"
    and "\<not> (isValidArray labels \<and> isValidArray data
            \<and> length (elems labels) = length (elems data))"
  shows "sortBarData labels data
           = Inr \<lparr>sortedLabels = (if nullish labels then JArr [] else labels),
                  sortedData = (if nullish data then JArr [] else data)\<rparr>"
proof -
  have keep: "\<And>v. listInput v \<Longrightarrow> orElse v (JArr []) = (if nullish v then JArr [] else v)"
    by (case_tac v) (simp_all add: orElse_def)
  show ?thesis using assms by (auto simp: sortBarData_def keep)
qed

text \<open>The theorem at two labels against one value: the rows come back in their order.\<close>

theorem sortBarData_passthrough_witness:
  "listInput (JArr [JStr ''a'', JStr ''b'']) \<and> listInput (JArr [JNum 1]) \<and> listInput JNull
   \<and> \<not> (isValidArray (JArr [JStr ''a'', JStr ''b'']) \<and> isValidArray (JArr [JNum 1])
         \<and> length (elems (JArr [JStr ''a'', JStr ''b''])) = length (elems (JArr [JNum 1])))
   \<and> sortBarData (JArr [JStr ''a'', JStr ''b'']) (JArr [JNum 1])
       = Inr \<lparr>sortedLabels = JArr [JStr ''a'', JStr ''b''], sortedData = JArr [JNum 1]\<rparr>"
proof -
  have h1: "listInput (JArr [JStr ''a'', JStr ''b''])" by simp
  have h2: "listInput (JArr [JNum 1])" by simp
  have h3: "\<not> (isValidArray (JArr [JStr ''a'', JStr ''b'']) \<and> isValidArray (JArr [JNum 1])
         \<and> length (elems (JArr [JStr ''a'', JStr ''b''])) = length (elems (JArr [JNum 1])))"
    by simp
  show ?thesis using h1 h2 h3 sortBarData_passthrough[OF h1 h2 h3] by simp
qed

subsection \<open>Steps that may throw\<close>

lemma sequenceE_Inr:
  "sequenceE ms = Inr ys \<longleftrightarrow> ms = map Inr ys"
proof (induction ms arbitrary: ys)
  case Nil
  then show ?case by auto
next
  case (Cons m ms)
  show ?case
  proof (cases m)
    case (Inl e)
    then show ?thesis by (auto simp: bindE_def)
  next
    case (Inr y)
    show ?thesis
    proof (cases "sequenceE ms")
      case (Inl e)
      then have "\<And>zs. ms \<noteq> map Inr zs" using Cons.IH by auto
      then show ?thesis using Inl Inr by (auto simp: bindE_def)
    next
      case (Inr zs)
      then have "ms = map Inr zs" using Cons.IH by simp
      then show ?thesis using Inr \<open>m = Inr y\<close> by (auto simp: bindE_def)
    qed
  qed
qed

lemma mapE_Inr: "mapE f xs = Inr ys \<longleftrightarrow> map f xs = map Inr ys"
  by (simp add: mapE_def sequenceE_Inr)

lemma mapE_ok:
  "\<forall>x \<in> set xs. \<exists>y. f x = Inr y \<Longrightarrow> \<exists>ys. mapE f xs = Inr ys \<and> length ys = length xs"
proof (induction xs)
  case Nil
  then show ?case by (simp add: mapE_Inr)
next
  case (Cons x xs)
  then obtain y ys where "f x = Inr y" "mapE f xs = Inr ys" "length ys = length xs" by auto
  then have "mapE f (x # xs) = Inr (y # ys)" by (simp add: mapE_Inr)
  then show ?case using \<open>length ys = length xs\<close> by auto
qed

lemma mapE_zip:
  assumes "mapE f xs = Inr ks"
  shows "length ks = length xs \<and> (\<forall>p \<in> set (zip xs ks). f (fst p) = Inr (snd p))"
proof -
  have m: "map f xs = map Inr ks" using assms by (simp add: mapE_Inr)
  then have l: "length ks = length xs" by (metis length_map)
  have "\<forall>i < length xs. f (xs ! i) = Inr (ks ! i)"
    using m l by (metis nth_map)
  then show ?thesis using l by (auto simp: set_zip)
qed

lemma mapE_pairs:
  "\<forall>p \<in> set ps. f (fst p) = Inr (snd p) \<Longrightarrow> mapE f (map fst ps) = Inr (map snd ps)"
  by (simp add: mapE_Inr)

subsection \<open>The default sort\<close>

lemma filter_defined_split:
  "set (filter (\<lambda>x. x \<noteq> JUndefined) xs @ filter (\<lambda>x. x = JUndefined) xs) = set xs"
  by auto

lemma distinct_defined_split:
  "distinct xs \<Longrightarrow> distinct (filter (\<lambda>x. x \<noteq> JUndefined) xs @ filter (\<lambda>x. x = JUndefined) xs)"
  by auto

lemma map_fst_sort_zip:
  assumes "length ks = length xs"
  shows "set (map fst (sort_key snd (zip xs ks))) = set xs"
    and "distinct xs \<Longrightarrow> distinct (map fst (sort_key snd (zip xs ks)))"
proof -
  show "set (map fst (sort_key snd (zip xs ks))) = set xs"
    using assms by (simp add: image_set[symmetric] del: image_set) (metis map_fst_zip set_map)
  assume "distinct xs"
  then have "distinct (map fst (zip xs ks))" using assms by simp
  then show "distinct (map fst (sort_key snd (zip xs ks)))"
    by (simp add: distinct_map)
qed

lemma defaultSort_perm:
  assumes "defaultSort xs = Inr ys"
  shows "set ys = set xs \<and> (distinct xs \<longrightarrow> distinct ys)"
proof (cases "length (filter (\<lambda>x. x \<noteq> JUndefined) xs) < 2")
  case True
  then have "ys = filter (\<lambda>x. x \<noteq> JUndefined) xs @ filter (\<lambda>x. x = JUndefined) xs"
    using assms by (simp add: defaultSort_def Let_def)
  then show ?thesis using filter_defined_split distinct_defined_split by metis
next
  case False
  let ?d = "filter (\<lambda>x. x \<noteq> JUndefined) xs"
  let ?u = "filter (\<lambda>x. x = JUndefined) xs"
  from False assms obtain ks where ks: "mapE toStr ?d = Inr ks"
      "ys = map fst (sort_key snd (zip ?d ks)) @ ?u"
    by (auto simp: defaultSort_def Let_def bindE_def split: sum.splits)
  have l: "length ks = length ?d" using ks(1) mapE_zip by blast
  have s: "set (map fst (sort_key snd (zip ?d ks))) = set ?d" using l by (rule map_fst_sort_zip)
  have "set ys = set xs" unfolding ks(2) set_append s by auto
  moreover have "distinct ys" if "distinct xs"
  proof -
    have "distinct ?d" using that by simp
    then have "distinct (map fst (sort_key snd (zip ?d ks)))" using l map_fst_sort_zip by blast
    moreover have "distinct ?u" using that by simp
    moreover have "set (map fst (sort_key snd (zip ?d ks))) \<inter> set ?u = {}"
      unfolding s by auto
    ultimately show ?thesis unfolding ks(2) by simp
  qed
  ultimately show ?thesis by simp
qed

lemma defaultSort_ok:
  assumes "\<forall>x \<in> set xs. \<exists>s. toStr x = Inr s"
  shows "\<exists>ys. defaultSort xs = Inr ys"
proof -
  have "\<forall>x \<in> set (filter (\<lambda>x. x \<noteq> JUndefined) xs). \<exists>s. toStr x = Inr s" using assms by simp
  then obtain ks where "mapE toStr (filter (\<lambda>x. x \<noteq> JUndefined) xs) = Inr ks"
    using mapE_ok by blast
  then show ?thesis by (simp add: defaultSort_def Let_def bindE_def)
qed

lemma defaultSort_sorted:
  assumes r: "defaultSort xs = Inr ys" and d: "JUndefined \<notin> set xs"
    and p: "\<forall>x \<in> set xs. \<exists>s. toStr x = Inr s"
  shows "\<exists>keys. mapE toStr ys = Inr keys \<and> sorted keys"
proof -
  have all: "filter (\<lambda>x. x \<noteq> JUndefined) xs = xs" "filter (\<lambda>x. x = JUndefined) xs = []"
    using d by (induction xs) auto
  show ?thesis
  proof (cases "length xs < 2")
    case True
    then have "ys = xs" using r all by (simp add: defaultSort_def Let_def)
    moreover obtain ks where "mapE toStr xs = Inr ks" "length ks = length xs"
      using p mapE_ok by blast
    moreover have "sorted ks" using \<open>length ks = length xs\<close> True by (intro sorted01) simp
    ultimately show ?thesis by blast
  next
    case False
    from False r all obtain ks where ks: "mapE toStr xs = Inr ks"
        "ys = map fst (sort_key snd (zip xs ks))"
      by (auto simp: defaultSort_def Let_def bindE_def split: sum.splits)
    have "\<forall>q \<in> set (sort_key snd (zip xs ks)). toStr (fst q) = Inr (snd q)"
      using mapE_zip[OF ks(1)] by simp
    then have "mapE toStr ys = Inr (map snd (sort_key snd (zip xs ks)))"
      unfolding ks(2) by (rule mapE_pairs)
    moreover have "sorted (map snd (sort_key snd (zip xs ks)))" by (rule sorted_sort_key)
    ultimately show ?thesis by blast
  qed
qed

lemma toStr_primitive: "primitive v \<Longrightarrow> \<exists>s. toStr v = Inr s"
  by (cases v) simp_all

subsection \<open>Grouping by sender\<close>

lemma set_foldl_setAdd: "set (foldl setAdd acc xs) = set acc \<union> set xs"
  by (induction xs arbitrary: acc) (auto simp: setAdd_def)

lemma distinct_foldl_setAdd: "distinct acc \<Longrightarrow> distinct (foldl setAdd acc xs)"
  by (induction xs arbitrary: acc) (auto simp: setAdd_def)

lemma set_newSet: "set (newSet xs) = set xs"
  by (simp add: newSet_def set_foldl_setAdd)

lemma distinct_newSet: "distinct (newSet xs)"
  by (simp add: newSet_def distinct_foldl_setAdd)

lemma foldl_optProp_undefined: "foldl optProp JUndefined ks = JUndefined"
  by (induction ks) (simp_all add: optProp_def)

lemma safeGet_undefined: "safeGet JUndefined path d = d"
  by (simp add: safeGet_def foldl_optProp_undefined)

lemma optProp_readProp: "optProp v k = readProp v k"
  by (cases v) (simp_all add: optProp_def)

lemma safeGet0_sender:
  "safeGet0 row ''sender''
     = (if nullish (readProp row ''sender'') then JStr [] else readProp row ''sender'')"
  by (simp add: safeGet0_def safeGet_def optProp_readProp)

lemma length_generateDistinctColors: "length (generateDistinctColors n) = n"
  by (simp add: generateDistinctColors_def)

text \<open>
  The two outcomes of the function: nothing at all (the guard, or the \<^verbatim>\<open>catch\<close>), or the
  sorted dates with one series per sender.
\<close>

lemma groupBySender_cases:
  fixes data :: json and dateField valueField :: string
  defines "senders \<equiv> filter truthy (newSet (map (\<lambda>d. safeGet0 d ''sender'') (elems data)))"
  defines "found \<equiv> filter truthy (newSet (map (\<lambda>d. safeGet0 d dateField) (elems data)))"
  shows "groupBySender data dateField valueField = \<lparr>dates = [], datasets = []\<rparr>
       \<or> (\<exists>dateList. defaultSort found = Inr dateList
            \<and> groupBySender data dateField valueField =
                \<lparr>dates = dateList,
                 datasets = map (\<lambda>i. senderSeries (elems data) dateField valueField dateList
                                      (generateDistinctColors (length senders)) (senders ! i) i)
                              [0..<length senders]\<rparr>)"
proof (cases "isValidArray data")
  case False
  then show ?thesis by (simp add: groupBySender_def)
next
  case True
  show ?thesis
  proof (cases "defaultSort found")
    case (Inl e)
    then show ?thesis
      using True by (simp add: groupBySender_def groupBySenderTry_def found_def bindE_def Let_def)
  next
    case (Inr dateList)
    then show ?thesis
      using True
      by (simp add: groupBySender_def groupBySenderTry_def found_def senders_def bindE_def Let_def)
  qed
qed

text \<open>When the dates can be sorted, the outcome is the second one, also without rows.\<close>

lemma groupBySender_sorted:
  fixes data :: json and dateField valueField :: string
  defines "senders \<equiv> filter truthy (newSet (map (\<lambda>d. safeGet0 d ''sender'') (elems data)))"
  defines "found \<equiv> filter truthy (newSet (map (\<lambda>d. safeGet0 d dateField) (elems data)))"
  assumes "defaultSort found = Inr dateList"
  shows "groupBySender data dateField valueField =
           \<lparr>dates = dateList,
            datasets = map (\<lambda>i. senderSeries (elems data) dateField valueField dateList
                                 (generateDistinctColors (length senders)) (senders ! i) i)
                         [0..<length senders]\<rparr>"
proof (cases "isValidArray data")
  case True
  then show ?thesis
    using assms
    by (simp add: groupBySender_def groupBySenderTry_def bindE_def Let_def)
next
  case False
  then have e: "elems data = []" by (cases data) simp_all
  then have "dateList = []" using assms by (simp add: newSet_def defaultSort_def)
  then show ?thesis using False e by (simp add: groupBySender_def senders_def newSet_def)
qed

lemma senderSeries_sel:
  "ds_label (senderSeries rows dateField valueField dateList colors sender i) = sender"
  "ds_data (senderSeries rows dateField valueField dateList colors sender i)
     = JArr (map (\<lambda>dt.
          safeGet (case find (\<lambda>x. safeGet0 x dateField = dt)
                          (filter (\<lambda>d. safeGet0 d ''sender'' = sender) rows)
                   of None \<Rightarrow> JUndefined | Some e \<Rightarrow> e) valueField (JNum 0)) dateList)"
  "ds_borderColor (senderSeries rows dateField valueField dateList colors sender i)
     = colorAt colors i"
  "ds_backgroundColor (senderSeries rows dateField valueField dateList colors sender i)
     = colorAt colors i"
  by (simp_all add: senderSeries_def Let_def)

lemma groupBySender_labels:
  "map ds_label (datasets (groupBySender data dateField valueField))
     = filter truthy (newSet (map (\<lambda>d. safeGet0 d ''sender'') (elems data)))
   \<or> datasets (groupBySender data dateField valueField) = []"
  using groupBySender_cases[of data dateField valueField]
  by (auto simp: senderSeries_sel comp_def map_nth)

lemma groupBySender_label:
  assumes "ds \<in> set (datasets (groupBySender data dateField valueField))"
  shows "truthy (ds_label ds)"
proof -
  let ?senders = "filter truthy (newSet (map (\<lambda>d. safeGet0 d ''sender'') (elems data)))"
  have "datasets (groupBySender data dateField valueField) \<noteq> []" using assms by auto
  then have "map ds_label (datasets (groupBySender data dateField valueField)) = ?senders"
    using groupBySender_labels[of data dateField valueField] by blast
  moreover have "ds_label ds \<in> set (map ds_label (datasets (groupBySender data dateField valueField)))"
    using assms by simp
  ultimately have "ds_label ds \<in> set ?senders" by simp
  then show ?thesis by simp
qed

lemma groupBySender_values:
  assumes "ds \<in> set (datasets (groupBySender data dateField valueField))"
  shows "ds_data ds = JArr (map (\<lambda>dt.
            safeGet (case find (\<lambda>x. safeGet0 x dateField = dt)
                            (filter (\<lambda>d. safeGet0 d ''sender'' = ds_label ds) (elems data))
                     of None \<Rightarrow> JUndefined | Some e \<Rightarrow> e) valueField (JNum 0))
          (dates (groupBySender data dateField valueField)))"
  using groupBySender_cases[of data dateField valueField] assms
  by (auto simp: senderSeries_sel)

lemma groupBySender_colours:
  "map ds_borderColor (datasets (groupBySender data dateField valueField))
     = map Some (generateDistinctColors
                  (length (datasets (groupBySender data dateField valueField))))
 \<and> map ds_backgroundColor (datasets (groupBySender data dateField valueField))
     = map ds_borderColor (datasets (groupBySender data dateField valueField))"
proof -
  let ?n = "length (filter truthy (newSet (map (\<lambda>d. safeGet0 d ''sender'') (elems data))))"
  have c: "map (\<lambda>i. colorAt (generateDistinctColors ?n) i) [0..<?n]
          = map Some (generateDistinctColors ?n)"
    by (rule nth_equalityI) (simp_all add: colorAt_def length_generateDistinctColors)
  have z: "generateDistinctColors 0 = []" by (simp add: generateDistinctColors_def)
  show ?thesis
    using groupBySender_cases[of data dateField valueField] c z
    by (auto simp: senderSeries_sel comp_def)
qed

lemma find_none_value:
  assumes "\<not> (\<exists>row \<in> set rows. safeGet0 row ''sender'' = s \<and> safeGet0 row dateField = dt)"
  shows "safeGet (case find (\<lambda>x. safeGet0 x dateField = dt)
                            (filter (\<lambda>d. safeGet0 d ''sender'' = s) rows)
                     of None \<Rightarrow> JUndefined | Some e \<Rightarrow> e) valueField (JNum 0) = JNum 0"
proof -
  have "find (\<lambda>x. safeGet0 x dateField = dt) (filter (\<lambda>d. safeGet0 d ''sender'' = s) rows) = None"
    using assms by (auto simp: find_None_iff)
  then show ?thesis by (simp add: safeGet_undefined)
qed

lemma printedExactly_primitive: "printedExactly v \<Longrightarrow> primitive v"
  by (cases v) simp_all

lemma quarterRows_grouped:
  "groupBySender quarterRows ''date'' ''message_count'' =
   \<lparr>dates = [JStr ''2024-01'', JStr ''2024-04'', JStr ''2024-07''],
    datasets =
      [Dataset (JStr ''ann'') (JArr [JNum 0, JNum 3, JNum 0])
         (Some (Hsla 0)) (Some (Hsla 0)) (Some True),
       Dataset (JStr ''bob'') (JArr [JNum 5, JNum 0, JNum 0])
         (Some (Hsla 180)) (Some (Hsla 180)) (Some True)]\<rparr>"
  by code_simp

text \<open>
  Claim C4, as stated, fails on the rows \<open>numberedRows\<close>: the distinct dates are 10 and 9 and
  the common x-axis comes out as 10, 9, because the dates are sorted by their string forms
  (\<^verbatim>\<open>"10" < "9"\<close>); the row with the empty sender gives its date to the axis and no series.
\<close>

theorem groupBySender_numbered_dates:
  "dates (groupBySender numberedRows ''date'' ''message_count'') = [JNum 10, JNum 9]
   \<and> datasets (groupBySender numberedRows ''date'' ''message_count'')
       = [Dataset (JStr ''ann'') (JArr [JNum 1, JNum 0])
            (Some (Hsla 0)) (Some (Hsla 0)) (Some True)]"
  by code_simp

text \<open>
  Claim C4, amended. Take a row list for \<^verbatim>\<open>groupBySender(rows, 'date', 'message_count')\<close>, as
  the quarterly chart calls it, in which every \<^verbatim>\<open>sender\<close> cell and every \<^verbatim>\<open>date\<close> cell is a
  primitive value (not an array, not an object), a date that is a number being an integer of
  magnitude below \<open>2^53\<close>. Then \<open>groupBySender\<close> produces one series per distinct sender
  value that is truthy (not missing, not empty), all series sharing one x-axis: the distinct
  truthy date values found across all rows, each once, sorted ascending by their string
  forms. Every series has one value per date of the axis, and a (sender, date) pair with no
  matching row has the value 0 in that sender's series.
\<close>

theorem groupBySender_shape:
  fixes data :: json
  defines "r \<equiv> groupBySender data ''date'' ''message_count''"
  defines "rows \<equiv> elems data"
  assumes cells: "primitiveCells data"
  shows "distinct (map ds_label (datasets r))
       \<and> set (map ds_label (datasets r)) = {s \<in> (\<lambda>d. safeGet0 d ''sender'') ` set rows. truthy s}
       \<and> distinct (dates r)
       \<and> set (dates r) = {dt \<in> (\<lambda>d. safeGet0 d ''date'') ` set rows. truthy dt}
       \<and> (\<exists>keys. mapE toStr (dates r) = Inr keys \<and> sorted keys)
       \<and> (\<forall>ds \<in> set (datasets r). \<exists>vs. ds_data ds = JArr vs \<and> length vs = length (dates r)
            \<and> (\<forall>j < length vs.
                  \<not> (\<exists>row \<in> set rows. safeGet0 row ''sender'' = ds_label ds
                                     \<and> safeGet0 row ''date'' = dates r ! j)
                  \<longrightarrow> vs ! j = JNum 0))"
proof -
  let ?senders = "filter truthy (newSet (map (\<lambda>d. safeGet0 d ''sender'') rows))"
  let ?found = "filter truthy (newSet (map (\<lambda>d. safeGet0 d ''date'') rows))"
  have prim: "\<forall>x \<in> set ?found. \<exists>s. toStr x = Inr s"
    using cells
    by (auto simp: primitiveCells_def rows_def list_all_iff set_newSet
        intro!: toStr_primitive printedExactly_primitive)
  have defined: "JUndefined \<notin> set ?found" by auto
  obtain dateList where sorted_dates: "defaultSort ?found = Inr dateList"
    using defaultSort_ok[OF prim] by blast
  have r: "r = \<lparr>dates = dateList,
            datasets = map (\<lambda>i. senderSeries rows ''date'' ''message_count'' dateList
                                 (generateDistinctColors (length ?senders)) (?senders ! i) i)
                         [0..<length ?senders]\<rparr>"
    unfolding r_def rows_def using sorted_dates[unfolded rows_def] by (rule groupBySender_sorted)
  have labels: "map ds_label (datasets r) = ?senders"
    by (simp add: r senderSeries_sel comp_def map_nth)
  have perm: "set dateList = set ?found" "distinct dateList"
    using defaultSort_perm[OF sorted_dates] by (simp_all add: distinct_newSet)
  have keys: "\<exists>keys. mapE toStr dateList = Inr keys \<and> sorted keys"
    using sorted_dates defined prim by (rule defaultSort_sorted)
  have series: "\<exists>vs. ds_data ds = JArr vs \<and> length vs = length (dates r)
            \<and> (\<forall>j < length vs.
                  \<not> (\<exists>row \<in> set rows. safeGet0 row ''sender'' = ds_label ds
                                     \<and> safeGet0 row ''date'' = dates r ! j)
                  \<longrightarrow> vs ! j = JNum 0)" if ds: "ds \<in> set (datasets r)" for ds
  proof -
    let ?f = "\<lambda>dt. safeGet (case find (\<lambda>x. safeGet0 x ''date'' = dt)
                            (filter (\<lambda>d. safeGet0 d ''sender'' = ds_label ds) rows)
                     of None \<Rightarrow> JUndefined | Some e \<Rightarrow> e) ''message_count'' (JNum 0)"
    have d: "ds_data ds = JArr (map ?f (dates r))"
      using ds unfolding r_def rows_def by (rule groupBySender_values)
    have "\<forall>j < length (map ?f (dates r)).
          \<not> (\<exists>row \<in> set rows. safeGet0 row ''sender'' = ds_label ds
                             \<and> safeGet0 row ''date'' = dates r ! j)
          \<longrightarrow> map ?f (dates r) ! j = JNum 0"
      by (auto simp: find_none_value)
    then show ?thesis using d by (intro exI[where x = "map ?f (dates r)"]) simp
  qed
  show ?thesis
  proof (intro conjI ballI)
    show "distinct (map ds_label (datasets r))" unfolding labels by (simp add: distinct_newSet)
    show "set (map ds_label (datasets r)) = {s \<in> (\<lambda>d. safeGet0 d ''sender'') ` set rows. truthy s}"
      unfolding labels by (auto simp: set_newSet)
    show "distinct (dates r)" using perm(2) by (simp add: r)
    show "set (dates r) = {dt \<in> (\<lambda>d. safeGet0 d ''date'') ` set rows. truthy dt}"
      using perm(1) by (auto simp: r set_newSet)
    show "\<exists>keys. mapE toStr (dates r) = Inr keys \<and> sorted keys" using keys by (simp add: r)
  next
    fix ds assume "ds \<in> set (datasets r)"
    then show "\<exists>vs. ds_data ds = JArr vs \<and> length vs = length (dates r)
            \<and> (\<forall>j < length vs.
                  \<not> (\<exists>row \<in> set rows. safeGet0 row ''sender'' = ds_label ds
                                     \<and> safeGet0 row ''date'' = dates r ! j)
                  \<longrightarrow> vs ! j = JNum 0)"
      by (rule series)
  qed
qed

text \<open>
  The theorem at \<open>quarterRows\<close>, whose cells are strings: two series, \<open>ann\<close> and \<open>bob\<close>, over
  the three quarters in ascending order; \<open>ann\<close> has no row for the first quarter, and the
  first value of the first series is 0.
\<close>

theorem groupBySender_shape_witness:
  "primitiveCells quarterRows
   \<and> map ds_label (datasets (groupBySender quarterRows ''date'' ''message_count''))
       = [JStr ''ann'', JStr ''bob'']
   \<and> dates (groupBySender quarterRows ''date'' ''message_count'')
       = [JStr ''2024-01'', JStr ''2024-04'', JStr ''2024-07'']
   \<and> distinct (dates (groupBySender quarterRows ''date'' ''message_count''))
   \<and> (\<exists>keys. mapE toStr (dates (groupBySender quarterRows ''date'' ''message_count''))
                = Inr keys \<and> sorted keys)
   \<and> (\<exists>vs. ds_data (datasets (groupBySender quarterRows ''date'' ''message_count'') ! 0)
                = JArr vs
            \<and> length vs = length (dates (groupBySender quarterRows ''date'' ''message_count''))
            \<and> vs ! 0 = JNum 0)"
proof -
  let ?r = "groupBySender quarterRows ''date'' ''message_count''"
  have cells: "primitiveCells quarterRows" by code_simp
  note shape = groupBySender_shape[OF cells]
  have member: "datasets ?r ! 0 \<in> set (datasets ?r)" by (simp add: quarterRows_grouped)
  from shape member obtain vs where vs: "ds_data (datasets ?r ! 0) = JArr vs"
      "length vs = length (dates ?r)"
      "\<forall>j < length vs.
          \<not> (\<exists>row \<in> set (elems quarterRows).
                  safeGet0 row ''sender'' = ds_label (datasets ?r ! 0)
                  \<and> safeGet0 row ''date'' = dates ?r ! j)
          \<longrightarrow> vs ! j = JNum 0"
    by blast
  have absent: "\<not> (\<exists>row \<in> set (elems quarterRows).
                  safeGet0 row ''sender'' = ds_label (datasets ?r ! 0)
                  \<and> safeGet0 row ''date'' = dates ?r ! 0)"
    unfolding quarterRows_grouped by code_simp
  have "0 < length vs" using vs(2) by (simp add: quarterRows_grouped)
  then have zero: "vs ! 0 = JNum 0" using vs(3) absent by blast
  have "distinct (dates ?r)"
    and "\<exists>keys. mapE toStr (dates ?r) = Inr keys \<and> sorted keys"
    using shape by blast+
  moreover have "map ds_label (datasets ?r) = [JStr ''ann'', JStr ''bob'']"
    and "dates ?r = [JStr ''2024-01'', JStr ''2024-04'', JStr ''2024-07'']"
    by (simp_all add: quarterRows_grouped)
  ultimately show ?thesis using cells vs(1,2) zero by blast
qed

text \<open>
  Claim C10. Every output of \<open>groupBySender\<close> is aligned: each series' value list is an
  array exactly as long as the date list. A series is never named by a falsy value: a row
  whose sender is missing or the empty string has the sender \<^verbatim>\<open>''\<close>, and no series
  carries that label.
\<close>

theorem groupBySender_aligned:
  fixes data :: json and dateField valueField :: string
  defines "r \<equiv> groupBySender data dateField valueField"
  shows "(\<forall>ds \<in> set (datasets r). isArray (ds_data ds)
            \<and> length (elems (ds_data ds)) = length (dates r))
       \<and> (\<forall>ds \<in> set (datasets r). truthy (ds_label ds))
       \<and> (\<forall>row \<in> set (elems data).
            nullish (readProp row ''sender'') \<or> readProp row ''sender'' = JStr []
            \<longrightarrow> safeGet0 row ''sender'' = JStr []
                \<and> safeGet0 row ''sender'' \<notin> ds_label ` set (datasets r))"
proof (intro conjI ballI impI)
  fix ds assume ds: "ds \<in> set (datasets r)"
  then show "isArray (ds_data ds)" unfolding r_def by (simp add: groupBySender_values)
  show "length (elems (ds_data ds)) = length (dates r)"
    using ds unfolding r_def by (simp add: groupBySender_values)
  show "truthy (ds_label ds)" using ds unfolding r_def by (rule groupBySender_label)
next
  fix row assume "row \<in> set (elems data)"
    and m: "nullish (readProp row ''sender'') \<or> readProp row ''sender'' = JStr []"
  show e: "safeGet0 row ''sender'' = JStr []" using m by (auto simp: safeGet0_sender)
  have "JStr [] \<notin> ds_label ` set (datasets r)"
  proof
    assume "JStr [] \<in> ds_label ` set (datasets r)"
    then obtain ds where "ds \<in> set (datasets r)" "ds_label ds = JStr []" by auto
    then have "truthy (JStr [])" using groupBySender_label[of ds data dateField valueField]
      unfolding r_def by simp
    then show False by simp
  qed
  then show "safeGet0 row ''sender'' \<notin> ds_label ` set (datasets r)" using e by simp
qed

text \<open>
  The theorem at \<open>quarterRows\<close>, whose third row has no sender: two series of three values
  each over three dates, none of them named by the empty string.
\<close>

theorem groupBySender_aligned_witness:
  "nullish (readProp (elems quarterRows ! 2) ''sender'')
   \<and> safeGet0 (elems quarterRows ! 2) ''sender'' = JStr []
   \<and> JStr [] \<notin> ds_label ` set (datasets (groupBySender quarterRows ''date'' ''message_count''))
   \<and> length (datasets (groupBySender quarterRows ''date'' ''message_count'')) = 2
   \<and> length (dates (groupBySender quarterRows ''date'' ''message_count'')) = 3
   \<and> list_all (\<lambda>ds. length (elems (ds_data ds))
                      = length (dates (groupBySender quarterRows ''date'' ''message_count'')))
       (datasets (groupBySender quarterRows ''date'' ''message_count''))"
proof -
  let ?r = "groupBySender quarterRows ''date'' ''message_count''"
  note aligned = groupBySender_aligned[of quarterRows "''date''" "''message_count''"]
  have row: "elems quarterRows ! 2 \<in> set (elems quarterRows)"
    by (simp add: quarterRows_def)
  have missing: "nullish (readProp (elems quarterRows ! 2) ''sender'')"
    by (simp add: quarterRows_def)
  from aligned row missing
  have dropped: "safeGet0 (elems quarterRows ! 2) ''sender'' = JStr []"
    "safeGet0 (elems quarterRows ! 2) ''sender'' \<notin> ds_label ` set (datasets ?r)"
    by blast+
  then have "JStr [] \<notin> ds_label ` set (datasets ?r)" by simp
  moreover from aligned
  have "list_all (\<lambda>ds. length (elems (ds_data ds)) = length (dates ?r)) (datasets ?r)"
    unfolding list_all_iff by blast
  moreover have "length (datasets ?r) = 2" and "length (dates ?r) = 3"
    by (simp_all add: quarterRows_grouped)
  ultimately show ?thesis using missing dropped(1) by simp
qed

subsection \<open>Coercions of plain data\<close>

lemma toStr_plain: "plain v \<Longrightarrow> \<exists>s. toStr v = Inr s"
proof (induction v)
  case (JArr xs)
  have "\<forall>x \<in> set xs. \<exists>s. (if nullish x then Inr [] else toStr x) = Inr s"
    using JArr by (auto simp: list_all_iff)
  from mapE_ok[OF this]
  obtain parts where "mapE (\<lambda>x. if nullish x then Inr [] else toStr x) xs = Inr parts"
    by auto
  then show ?case by (simp add: mapE_def bindE_def)
qed simp_all

lemma toNumber_plain: "plain v \<Longrightarrow> \<exists>n. toNumber v = Inr n"
proof (cases v)
  case (JArr xs)
  assume "plain v"
  then obtain s where "toStr v = Inr s" using toStr_plain by blast
  then show ?thesis using JArr by (simp add: bindE_def)
next
  case (JObj fs)
  assume "plain v"
  then obtain s where "toStr v = Inr s" using toStr_plain by blast
  then show ?thesis using JObj by (simp add: bindE_def)
qed simp_all

lemma subtract_plain: "plain a \<Longrightarrow> plain b \<Longrightarrow> \<exists>c. subtract a b = Inr c"
  using toNumber_plain[of a] toNumber_plain[of b] by (auto simp: subtract_def bindE_def)

lemma insertBy_ok:
  "\<forall>y \<in> set ys. \<exists>c. cmp x y = Inr c \<Longrightarrow>
   \<exists>zs. insertBy cmp x ys = Inr zs \<and> set zs = insert x (set ys)"
proof (induction ys)
  case Nil
  then show ?case by simp
next
  case (Cons y ys)
  then obtain c zs where "cmp x y = Inr c" "insertBy cmp x ys = Inr zs"
      "set zs = insert x (set ys)"
    by auto
  then show ?case by auto
qed

lemma sortBy_ok:
  "\<forall>a \<in> set xs. \<forall>b \<in> set xs. \<exists>c. cmp a b = Inr c \<Longrightarrow>
   \<exists>zs. sortBy cmp xs = Inr zs \<and> set zs = set xs"
proof (induction xs)
  case Nil
  then show ?case by simp
next
  case (Cons x xs)
  then obtain zs where zs: "sortBy cmp xs = Inr zs" "set zs = set xs" by auto
  have "\<forall>y \<in> set zs. \<exists>c. cmp x y = Inr c" using Cons.prems zs(2) by simp
  from insertBy_ok[of zs cmp x, OF this]
  obtain ws where "insertBy cmp x zs = Inr ws" "set ws = insert x (set zs)"
    by auto
  then show ?case using zs by (simp add: bindE_def)
qed

lemma sortBarData_plain:
  assumes "list_all plain (elems data)"
  shows "\<exists>r. sortBarData labels data = Inr r"
proof (cases "\<not> isValidArray labels \<or> \<not> isValidArray data
         \<or> length (elems labels) \<noteq> length (elems data)")
  case True
  then show ?thesis by (simp add: sortBarData_def)
next
  case False
  let ?pairs = "map (\<lambda>i. (elems labels ! i, index (elems data) i)) [0..<length (elems labels)]"
  have "\<forall>p \<in> set ?pairs. plain (snd p)"
    using assms False by (auto simp: index_def list_all_iff)
  then have "\<forall>a \<in> set ?pairs. \<forall>b \<in> set ?pairs. \<exists>c. subtract (snd b) (snd a) = Inr c"
    by (simp add: subtract_plain)
  from sortBy_ok[of ?pairs "\<lambda>a b. subtract (snd b) (snd a)", OF this]
  obtain zs where "sortBy (\<lambda>a b. subtract (snd b) (snd a)) ?pairs = Inr zs"
    by auto
  then show ?thesis using False by (simp add: sortBarData_def bindE_def Let_def)
qed

lemma plain_readProp: "plain v \<Longrightarrow> plain (readProp v k)"
proof (cases v)
  case (JObj fs)
  assume p: "plain v"
  show ?thesis
  proof (cases "map_of fs k")
    case None
    then show ?thesis using JObj by simp
  next
    case (Some x)
    then have "x \<in> set (map snd fs)" by (metis map_of_SomeD set_zip_rightD zip_map_fst_snd)
    then show ?thesis using p JObj Some by (auto simp: list_all_iff)
  qed
qed simp_all

lemma plain_elems: "plain v \<Longrightarrow> list_all plain (elems v)"
  by (cases v) simp_all

lemma plain_foldl_optProp: "plain v \<Longrightarrow> plain (foldl optProp v ks)"
  by (induction ks arbitrary: v) (simp_all add: optProp_readProp plain_readProp)

lemma plain_safeGet: "plain v \<Longrightarrow> plain d \<Longrightarrow> plain (safeGet v path d)"
  by (simp add: safeGet_def Let_def plain_foldl_optProp)

lemma plain_orElse: "plain a \<Longrightarrow> plain b \<Longrightarrow> plain (orElse a b)"
  by (simp add: orElse_def)


section \<open>Properties of the assembler\<close>

text \<open>
  Claim C8. For the payload whose only content is the \<^verbatim>\<open>day_of_week\<close> rows Mon 5 and
  Tue 10, the assembler returns exactly one item, the bar chart of that metric, with labels
  Tue, Mon and values 10, 5 in that order. (The payload has no caption, so the commentary is
  \<^verbatim>\<open>undefined\<close>.)
\<close>

theorem day_of_week_scenario:
  "buildChartDataSets scenarioPayload =
     [Chart ''Average Messages by Day of Week'' Bar (JArr [JStr ''Tue'', JStr ''Mon''])
        [Dataset (JStr ''Avg Messages by Day of Week'') (JArr [JNum 10, JNum 5])
           None (Some (Css ''rgba(54, 162, 235, 0.6)'')) None]
        JUndefined]"
  by code_simp

text \<open>
  Claim C1. A payload that lacks a metric key should be assembled like the payload that has
  the key with no rows: no item for that metric, every other item as before. The code does
  otherwise. With \<^verbatim>\<open>day_of_week\<close> present and empty, the sample payload yields the
  monthly chart and the closing card; without the key, reading
  \<^verbatim>\<open>analysisData.day_of_week.data\<close> throws inside the single \<^verbatim>\<open>try\<close>, no later block
  runs, and the result is empty.
\<close>

theorem absent_key_aborts_assembly:
  "buildChartDataSets payloadEmptyDayOfWeek =
     [Chart ''Monthly Message Count'' Line (JArr [JStr ''2024-01''])
        [Dataset (JStr ''Messages per Month'') (JArr [JNum 42])
           (Some (Css ''rgba(255, 99, 132, 1)'')) None (Some False)]
        (JStr ''A busy January''),
      closingCard]
   \<and> buildChartDataSets payloadWithoutDayOfWeek = []"
  by code_simp

subsection \<open>The closing card\<close>

text \<open>On a plain payload whose records are present, every block completes.\<close>

lemma truthy_not_nullish: "truthy p \<Longrightarrow> \<not> nullish p"
  by (cases p) simp_all

lemma barBlock_ok:
  assumes "\<not> nullish p" and "\<not> nullish (readProp p key)" and "plain p"
  shows "blockOk p (\<not> isValidArray (readProp (readProp p key) ''data''))
           (barBlock key lf vf t l c)"
proof -
  let ?rows = "readProp (readProp p key) ''data''"
  have "list_all plain (elems ?rows)"
    using assms(3) by (intro plain_elems plain_readProp)
  then have "list_all plain (elems (JArr (map (\<lambda>d. safeGet d vf (JNum 0)) (elems ?rows))))"
    by (simp add: list_all_iff plain_safeGet)
  then obtain r where "sortBarData (JArr (map (\<lambda>d. safeGet0 d lf) (elems ?rows)))
      (JArr (map (\<lambda>d. safeGet d vf (JNum 0)) (elems ?rows))) = Inr r"
    using sortBarData_plain by blast
  then show ?thesis
    using assms(1,2) by (simp add: blockOk_def barBlock_def bindE_def getProp_def Let_def)
qed

lemma lineBlock_ok:
  assumes "\<not> nullish p" and "\<not> nullish (readProp p key)"
  shows "blockOk p (\<not> isValidArray (readProp (readProp p key) ''data''))
           (lineBlock key lf vf t l c)"
  using assms by (simp add: blockOk_def lineBlock_def bindE_def getProp_def Let_def)

lemma quarterlyBlock_ok:
  assumes "\<not> nullish p" and "\<not> nullish (readProp p ''quarterly_contribution'')"
  shows "blockOk p (\<not> isValidArray (readProp (readProp p ''quarterly_contribution'') ''data''))
           quarterlyBlock"
  using assms by (simp add: blockOk_def quarterlyBlock_def bindE_def getProp_def Let_def)

lemma daySummary_ok:
  assumes "\<not> nullish d" and "\<not> nullish (readProp d ''content'')" and "plain d"
  shows "\<exists>y. daySummary d = Inr y"
proof -
  have "plain (orElse (readProp d ''date'') (JStr []))"
    using assms(3) by (simp add: plain_orElse plain_readProp)
  then obtain title where t: "toStr (orElse (readProp d ''date'') (JStr [])) = Inr title"
    using toStr_plain by blast
  have "plain (orElse (readProp (readProp d ''content'') ''summary'') (JStr []))"
    using assms(3) by (simp add: plain_orElse plain_readProp)
  then obtain summary
    where s: "toStr (orElse (readProp (readProp d ''content'') ''summary'') (JStr [])) = Inr summary"
    using toStr_plain by blast
  show ?thesis using assms(1,2) t s by (simp add: daySummary_def bindE_def getProp_def)
qed

lemma summariesBlock_ok:
  assumes "\<not> nullish p" and "wellFormedSummaries p" and "plain p"
  shows "blockOk p (\<not> isValidArray (optProp (readProp p ''top_ten_days'') ''day_summaries''))
           summariesBlock"
proof -
  let ?ds = "optProp (readProp p ''top_ten_days'') ''day_summaries''"
  have "list_all plain (elems ?ds)"
    using assms(3) by (simp add: optProp_readProp plain_elems plain_readProp)
  then have "\<forall>d \<in> set (elems ?ds). \<exists>y. daySummary d = Inr y"
    using assms(2) by (auto simp: wellFormedSummaries_def list_all_iff intro: daySummary_ok)
  from mapE_ok[OF this]
  obtain ys where ys: "mapE daySummary (elems ?ds) = Inr ys" "length ys = length (elems ?ds)"
    by auto
  let ?kept = "filter (\<lambda>s. sm_title s \<noteq> [] \<and> sm_summary s \<noteq> []) ys"
  have run: "summariesBlock p
      = (if isArray ?ds then (if length ?kept > 0 then Inr [SummaryGrid ?kept] else Inr [])
         else Inr [])"
    using assms(1) ys(1)
    by (cases ?ds) (simp_all add: summariesBlock_def bindE_def getProp_def Let_def)
  have quiet: "?kept = []" if "\<not> isValidArray ?ds" "isArray ?ds"
  proof -
    have "elems ?ds = []" using that by (cases ?ds) simp_all
    then show ?thesis using ys(2) by simp
  qed
  show ?thesis
  proof (cases "isArray ?ds")
    case True
    show ?thesis
    proof (cases "length ?kept > 0")
      case True
      then have "summariesBlock p = Inr [SummaryGrid ?kept]" using run \<open>isArray ?ds\<close> by simp
      moreover have "isValidArray ?ds" using quiet \<open>isArray ?ds\<close> True by fastforce
      ultimately show ?thesis unfolding blockOk_def by simp
    next
      case False
      then have "summariesBlock p = Inr []" using run \<open>isArray ?ds\<close> by simp
      then show ?thesis unfolding blockOk_def by simp
    qed
  next
    case False
    then have "summariesBlock p = Inr []" using run by simp
    then show ?thesis unfolding blockOk_def by simp
  qed
qed

text \<open>When every block before the last completes, the run ends with the closing card.\<close>

lemma runBlocks_ok:
  assumes "list_all (\<lambda>(q, b). blockOk p q b) qbs" and "list_all isChartOrGrid acc"
  shows "\<exists>items. runBlocks (map snd qbs @ [closingBlock]) p acc = (items @ [closingCard], None)
           \<and> list_all isChartOrGrid items
           \<and> (list_all fst qbs \<longrightarrow> items = acc)"
  using assms
proof (induction qbs arbitrary: acc)
  case Nil
  then show ?case by (simp add: closingBlock_def)
next
  case (Cons qb qbs)
  obtain q b where qb: "qb = (q, b)" by (cases qb)
  from Cons.prems(1) qb obtain its
    where its: "b p = Inr its" "list_all isChartOrGrid its" "q \<longrightarrow> its = []"
    by (auto simp: blockOk_def)
  have "list_all (\<lambda>(q, b). blockOk p q b) qbs" using Cons.prems(1) by simp
  moreover have "list_all isChartOrGrid (acc @ its)" using Cons.prems(2) its(2) by simp
  ultimately obtain items where
    "runBlocks (map snd qbs @ [closingBlock]) p (acc @ its) = (items @ [closingCard], None)"
    "list_all isChartOrGrid items" "list_all fst qbs \<longrightarrow> items = acc @ its"
    using Cons.IH by blast
  then show ?case using its qb by auto
qed

lemma assembled_complete:
  assumes t: "truthy p" and pl: "plain p" and r: "recordsPresent p"
    and w: "wellFormedSummaries p"
  shows "\<exists>items. buildChartDataSets p = items @ [closingCard]
           \<and> list_all isChartOrGrid items \<and> (noUsableData p \<longrightarrow> items = [])"
proof -
  let ?q = "\<lambda>k. \<not> isValidArray (readProp (readProp p k) ''data'')"
  let ?qs = "\<not> isValidArray (optProp (readProp p ''top_ten_days'') ''day_summaries'')"
  let ?qbs = "[
       (?q ''day_of_week'', barBlock ''day_of_week'' ''day_of_week'' ''avg_messages''
         ''Average Messages by Day of Week'' ''Avg Messages by Day of Week''
         ''rgba(54, 162, 235, 0.6)''),
       (?q ''monthly_messages'', lineBlock ''monthly_messages'' ''date'' ''message_count''
         ''Monthly Message Count'' ''Messages per Month'' ''rgba(255, 99, 132, 1)''),
       (?q ''avg_messages_sent'', lineBlock ''avg_messages_sent'' ''month'' ''avg_messages_sent''
         ''Average Messages Sent per Month'' ''Avg Messages per Month''
         ''rgba(75, 192, 192, 1)''),
       (?q ''quarterly_contribution'', quarterlyBlock),
       (?q ''yearly_comparison'', barBlock ''yearly_comparison'' ''sender'' ''percent_change''
         ''Year-Over-Year Message Change'' ''YoY % Change'' ''rgba(153, 102, 255, 0.6)''),
       (?q ''top_ten_days'', barBlock ''top_ten_days'' ''day'' ''chats''
         ''Top 10 Most Active Days'' ''Number of Messages'' ''rgba(255, 206, 86, 0.6)''),
       (?qs, summariesBlock),
       (?q ''manic'', barBlock ''manic'' ''sender'' ''percent_manic''
         ''Most Manic Award'' ''% Messages (10pm-4am)'' ''rgba(54, 162, 235, 0.6)''),
       (?q ''most_ignored'', barBlock ''most_ignored'' ''sender'' ''average_time_to_respond''
         ''Most Ignored Member :('' ''Average Minutes Until Response''
         ''rgba(54, 162, 235, 0.6)''),
       (?q ''novelist'', barBlock ''novelist'' ''sender'' ''average_message_length''
         ''Groupchat Novelist Award'' ''Average Characters per Message''
         ''rgba(54, 162, 235, 0.6)''),
       (?q ''swears'', barBlock ''swears'' ''sender'' ''swears_per_message''
         ''Swear Word Frequency'' ''Swears per Message'' ''rgba(255, 99, 132, 0.6)''),
       (?q ''hangout'', barBlock ''hangout'' ''sender'' ''hangouts_per_message''
         ''Hangout Discussion Frequency'' ''Hangout References per Message''
         ''rgba(75, 192, 192, 0.6)'')]"
  have n: "\<not> nullish p" using t by (rule truthy_not_nullish)
  have present: "\<And>k. k \<in> set metricKeys \<Longrightarrow> \<not> nullish (readProp p k)"
    using r by (simp add: recordsPresent_def list_all_iff)
  have blocks_eq: "blocks = map snd ?qbs @ [closingBlock]"
    by (simp add: blocks_def)
  have ok: "list_all (\<lambda>(q, b). blockOk p q b) ?qbs"
    using n w pl present
    by (simp add: metricKeys_def barBlock_ok lineBlock_ok quarterlyBlock_ok summariesBlock_ok)
  have quiet: "noUsableData p \<Longrightarrow> list_all fst ?qbs"
    by (simp add: noUsableData_def metricKeys_def)
  obtain items where items:
    "runBlocks (map snd ?qbs @ [closingBlock]) p [] = (items @ [closingCard], None)"
    "list_all isChartOrGrid items" "list_all fst ?qbs \<longrightarrow> items = []"
    using runBlocks_ok[OF ok, of "[]"] by auto
  have "buildChartDataSets p = items @ [closingCard]"
    using t items(1) by (simp only: buildChartDataSets_def blocks_eq) simp
  then show ?thesis using items(2,3) quiet by blast
qed


text \<open>
  Claim C2, as stated, fails on the \<^verbatim>\<open>null\<close> payload: the guard
  \<^verbatim>\<open>if (!analysisData) return [];\<close> returns the empty sequence, which has no closing card
  and not the length 1.
\<close>

theorem null_payload_assembles_nothing:
  "buildChartDataSets JNull = [] \<and> length (buildChartDataSets JNull) \<noteq> 1"
  by (simp add: buildChartDataSets_def)

text \<open>
  Claim C2, amended. For a payload that is \<^verbatim>\<open>null\<close>, absent or otherwise falsy the
  assembler returns the empty sequence. For every other payload that is plain data (no
  object in it has an own property named \<^verbatim>\<open>toString\<close>, so that no coercion of a value of the
  payload to a string or to a number throws), in which each metric key has a record and
  every day summary has a content, the returned sequence is non-empty, its last element is
  the fixed closing text card, every element before it is a chart or the day grid, and when
  no metric has rows and there are no day summaries the sequence has length exactly 1.
\<close>

theorem closing_card_last:
  "(\<not> truthy p \<longrightarrow> buildChartDataSets p = []) \<and>
   (truthy p \<and> plain p \<and> recordsPresent p \<and> wellFormedSummaries p \<longrightarrow>
      buildChartDataSets p \<noteq> []
      \<and> last (buildChartDataSets p) = closingCard
      \<and> list_all isChartOrGrid (butlast (buildChartDataSets p))
      \<and> (noUsableData p \<longrightarrow> length (buildChartDataSets p) = 1))"
proof (intro conjI impI)
  assume "\<not> truthy p"
  then show "buildChartDataSets p = []" by (simp add: buildChartDataSets_def)
next
  assume h: "truthy p \<and> plain p \<and> recordsPresent p \<and> wellFormedSummaries p"
  then obtain items where items: "buildChartDataSets p = items @ [closingCard]"
      "list_all isChartOrGrid items" "noUsableData p \<longrightarrow> items = []"
    using assembled_complete by blast
  show "buildChartDataSets p \<noteq> []" using items(1) by simp
  show "last (buildChartDataSets p) = closingCard" using items(1) by simp
  show "list_all isChartOrGrid (butlast (buildChartDataSets p))" using items(1,2) by simp
  show "length (buildChartDataSets p) = 1" if "noUsableData p" using that items(1,3) by simp
qed

text \<open>
  The theorem at the payload with an empty record for every metric: the assembled sequence
  is the closing card alone. At \<open>payloadEmptyDayOfWeek\<close> the card follows one chart.
\<close>

theorem closing_card_last_witness:
  "truthy emptyRecords \<and> plain emptyRecords \<and> recordsPresent emptyRecords
   \<and> wellFormedSummaries emptyRecords \<and> noUsableData emptyRecords
   \<and> buildChartDataSets emptyRecords \<noteq> []
   \<and> last (buildChartDataSets emptyRecords) = closingCard
   \<and> length (buildChartDataSets emptyRecords) = 1
   \<and> truthy payloadEmptyDayOfWeek \<and> plain payloadEmptyDayOfWeek
   \<and> recordsPresent payloadEmptyDayOfWeek \<and> wellFormedSummaries payloadEmptyDayOfWeek
   \<and> last (buildChartDataSets payloadEmptyDayOfWeek) = closingCard"
proof -
  have h: "truthy emptyRecords \<and> plain emptyRecords \<and> recordsPresent emptyRecords
      \<and> wellFormedSummaries emptyRecords"
    by code_simp
  have q: "noUsableData emptyRecords"
    by code_simp
  have h': "truthy payloadEmptyDayOfWeek \<and> plain payloadEmptyDayOfWeek
      \<and> recordsPresent payloadEmptyDayOfWeek \<and> wellFormedSummaries payloadEmptyDayOfWeek"
    by code_simp
  show ?thesis
    using h q h' closing_card_last[of emptyRecords] closing_card_last[of payloadEmptyDayOfWeek]
    by simp
qed

subsection \<open>Determinism\<close>

text \<open>
  Claim C6. A call of the assembler returns the same sequence in every world: the result is
  a function of the payload alone (the value \<open>buildChartDataSets\<close>), whatever the console
  holds and whatever the random generator would return, and the call draws no random
  number. The colours of the per-sender series are not random either: they are the palette
  \<open>generateDistinctColors\<close> computes from the number of series.
\<close>

theorem assembler_deterministic:
  "fst (callBuildChartDataSets p w1) = fst (callBuildChartDataSets p w2)
 \<and> fst (callBuildChartDataSets p w1) = buildChartDataSets p
 \<and> randoms (snd (callBuildChartDataSets p w1)) = randoms w1
 \<and> drawn (snd (callBuildChartDataSets p w1)) = drawn w1
 \<and> map ds_borderColor (datasets (groupBySender data dateField valueField))
     = map Some (generateDistinctColors
                  (length (datasets (groupBySender data dateField valueField))))"
proof -
  have "fst (callBuildChartDataSets p w) = buildChartDataSets p
      \<and> randoms (snd (callBuildChartDataSets p w)) = randoms w
      \<and> drawn (snd (callBuildChartDataSets p w)) = drawn w" for w
    by (simp add: callBuildChartDataSets_def buildChartDataSets_def
        split: prod.splits option.splits)
  then show ?thesis using groupBySender_colours by simp
qed


section \<open>Properties of the handlers\<close>

subsection \<open>The navigation cursor\<close>











subsection \<open>Changing the year\<close>

text \<open>
  Claim C7. When the request of a year change fails (network error, a status outside 2xx,
  or a body that does not parse), the application ends in the error phase with the payload
  and the cursor as they were, and the error message is rendered in place of the
  visualization. When it succeeds, the payload is replaced by the response, the cursor is
  reset to 0 and the phase is \<^verbatim>\<open>visualize\<close>.
\<close>

theorem year_change_outcome:
  "(fetchFailed r \<longrightarrow>
       phase (handleYearChange year r s) = ErrorPhase
     \<and> analysisData (handleYearChange year r s) = analysisData s
     \<and> currentChartIndex (handleYearChange year r s) = currentChartIndex s
     \<and> render (handleYearChange year r s) = ErrorScreen ''Failed to fetch data for year'')
 \<and> (r = Response True (Some json) \<longrightarrow>
       phase (handleYearChange year r s) = Visualize
     \<and> analysisData (handleYearChange year r s) = json
     \<and> currentChartIndex (handleYearChange year r s) = 0)"
proof (intro conjI impI)
  assume f: "fetchFailed r"
  then have "yearChangeSettled r (yearChangeRequested year s)
     = (yearChangeRequested year s)\<lparr>errorMessage := Some ''Failed to fetch data for year'',
          phase := ErrorPhase\<rparr>"
    by (cases "(r, yearChangeRequested year s)" rule: yearChangeSettled.cases) auto
  then have e: "handleYearChange year r s
     = s\<lparr>selectedYear := year, errorMessage := Some ''Failed to fetch data for year'',
          phase := ErrorPhase\<rparr>"
    by (simp add: handleYearChange_def yearChangeRequested_def)
  show "phase (handleYearChange year r s) = ErrorPhase"
    by (simp add: e)
  show "analysisData (handleYearChange year r s) = analysisData s"
    by (simp add: e)
  show "currentChartIndex (handleYearChange year r s) = currentChartIndex s"
    by (simp add: e)
  show "render (handleYearChange year r s) = ErrorScreen ''Failed to fetch data for year''"
    by (simp add: e render_def)
next
  assume s: "r = Response True (Some json)"
  show "phase (handleYearChange year r s) = Visualize"
    by (simp add: handleYearChange_def s)
  show "analysisData (handleYearChange year r s) = json"
    by (simp add: handleYearChange_def s)
  show "currentChartIndex (handleYearChange year r s) = 0"
    by (simp add: handleYearChange_def s)
qed

text \<open>
  The theorem at a state showing the second item: an answer with status 500 leaves the
  payload and the cursor 1 and shows the error; a successful answer carrying
  \<open>scenarioPayload\<close> replaces the payload and puts the cursor at 0.
\<close>

theorem year_change_outcome_witness:
  "fetchFailed (Response False None)
   \<and> phase (handleYearChange (JStr ''2023'') (Response False None) viewingSecond) = ErrorPhase
   \<and> analysisData (handleYearChange (JStr ''2023'') (Response False None) viewingSecond)
       = payloadEmptyDayOfWeek
   \<and> currentChartIndex (handleYearChange (JStr ''2023'') (Response False None) viewingSecond) = 1
   \<and> render (handleYearChange (JStr ''2023'') (Response False None) viewingSecond)
       = ErrorScreen ''Failed to fetch data for year''
   \<and> phase (handleYearChange (JStr ''2023'') (Response True (Some scenarioPayload)) viewingSecond)
       = Visualize
   \<and> analysisData
         (handleYearChange (JStr ''2023'') (Response True (Some scenarioPayload)) viewingSecond)
       = scenarioPayload
   \<and> currentChartIndex
         (handleYearChange (JStr ''2023'') (Response True (Some scenarioPayload)) viewingSecond)
       = 0"
proof -
  have failed: "fetchFailed (Response False None)" by simp
  show ?thesis
    using failed
      year_change_outcome[of "Response False None" "JStr ''2023''" viewingSecond scenarioPayload]
      year_change_outcome[of "Response True (Some scenarioPayload)" "JStr ''2023''"
        viewingSecond scenarioPayload]
    by (simp add: viewingSecond_def)
qed

end
